theory Spec2Isabelle
  imports Complex_Main "HOL-Library.Sublist"
begin

text \<open>
  A shallow embedding of the schema and query layer of node-sqlite-orm: the value codec
  (\<open>json.ts\<close>), the statement builders (\<open>builder.ts\<close>), the snapshot reader
  (\<open>model-reader.ts\<close>) and the storage boundary of the driver (class \<open>SqliteOrm\<close>).
  Every function keeps the name and the branch order of its source; a \<open>throw\<close> is a
  value \<open>Inl e\<close>, a loop is a recursive function on the list it walks.
\<close>

section \<open>JavaScript values\<close>

text \<open>
  A JavaScript number is a double. The model keeps the three non-finite values apart and
  represents a finite double by the rational it denotes; not every rational is a double,
  so a statement about every \<open>jsnum\<close> covers every double. The sign of zero is not
  modelled (no function below can observe it).
\<close>

datatype jsnum = Finite rat | NaN | PosInfinity | NegInfinity

text \<open>
  The runtime values that reach the library. \<open>JObj\<close> is a plain object, given by its own
  enumerable string-keyed properties in the order of \<open>Object.entries\<close>; \<open>JMap\<close> is a
  \<open>Map\<close> given by its entries in insertion order; \<open>JBuf\<close> is a Node \<open>Buffer\<close> and
  \<open>JU8\<close> any other \<open>Uint8Array\<close>; \<open>JInst\<close> is an instance of a user class, given by
  the identities of its class and of the ancestors of that class (nearest first) and by
  its own enumerable properties. The bytes of a buffer are natural numbers (below 256
  in JavaScript; no function below depends on the bound). Other exotic objects (Date,
  Set, ...) are outside the model; a function or symbol value is opaque.
\<close>

datatype jsval =
    JUndefined
  | JNull
  | JBool bool
  | JNum jsnum
  | JStr string
  | JBigInt int
  | JFunction
  | JSymbol
  | JArr "jsval list"
  | JObj "(string \<times> jsval) list"
  | JMap "(jsval \<times> jsval) list"
  | JBuf "nat list"
  | JU8 "nat list"
  | JInst "nat list" "(string \<times> jsval) list"

datatype jstype =
  TUndefined | TBoolean | TNumber | TString | TBigint | TFunction | TSymbol | TObject

fun typeof :: "jsval \<Rightarrow> jstype" where
  "typeof JUndefined = TUndefined"
| "typeof JNull = TObject"
| "typeof (JBool b) = TBoolean"
| "typeof (JNum n) = TNumber"
| "typeof (JStr s) = TString"
| "typeof (JBigInt i) = TBigint"
| "typeof JFunction = TFunction"
| "typeof JSymbol = TSymbol"
| "typeof (JArr xs) = TObject"
| "typeof (JObj kvs) = TObject"
| "typeof (JMap kvs) = TObject"
| "typeof (JBuf bs) = TObject"
| "typeof (JU8 bs) = TObject"
| "typeof (JInst cs kvs) = TObject"

text \<open>\<open>v == null\<close>: true of \<open>null\<close> and of \<open>undefined\<close>.\<close>

definition loose_null :: "jsval \<Rightarrow> bool" where
  "loose_null v = (v = JNull \<or> v = JUndefined)"

text \<open>The truthiness of a value, as \<open>if (v)\<close> and \<open>v ? a : b\<close> test it.\<close>

fun truthy :: "jsval \<Rightarrow> bool" where
  "truthy JUndefined = False"
| "truthy JNull = False"
| "truthy (JBool b) = b"
| "truthy (JNum n) = (n \<noteq> NaN \<and> n \<noteq> Finite 0)"
| "truthy (JStr s) = (s \<noteq> [])"
| "truthy (JBigInt i) = (i \<noteq> 0)"
| "truthy v = True"

fun isFinite :: "jsnum \<Rightarrow> bool" where
  "isFinite (Finite q) = True"
| "isFinite n = False"

fun isInteger :: "jsnum \<Rightarrow> bool" where
  "isInteger (Finite q) = (of_int \<lfloor>q\<rfloor> = q)"
| "isInteger n = False"

text \<open>\<open>Number.isSafeInteger\<close>: an integer of magnitude at most \<open>2^53 - 1\<close>.\<close>

fun isSafeInteger :: "jsnum \<Rightarrow> bool" where
  "isSafeInteger (Finite q) = (of_int \<lfloor>q\<rfloor> = q \<and> \<bar>q\<bar> \<le> 9007199254740991)"
| "isSafeInteger n = False"

text \<open>\<open>v instanceof Uint8Array\<close>; a \<open>Buffer\<close> is a \<open>Uint8Array\<close>.\<close>

fun instanceof_Uint8Array :: "jsval \<Rightarrow> bool" where
  "instanceof_Uint8Array (JBuf bs) = True"
| "instanceof_Uint8Array (JU8 bs) = True"
| "instanceof_Uint8Array v = False"

fun instanceof_Array :: "jsval \<Rightarrow> bool" where
  "instanceof_Array (JArr xs) = True"
| "instanceof_Array v = False"

text \<open>A primitive value: anything but an object or a function (\<open>null\<close> is one).\<close>

definition is_primitive :: "jsval \<Rightarrow> bool" where
  "is_primitive v = (v = JNull \<or> (typeof v \<noteq> TObject \<and> typeof v \<noteq> TFunction))"

text \<open>\<open>Array.prototype.join\<close> on an array of strings.\<close>

fun join :: "string \<Rightarrow> string list \<Rightarrow> string" where
  "join sep [] = []"
| "join sep [x] = x"
| "join sep (x # y # ys) = x @ sep @ join sep (y # ys)"

text \<open>\<open>Array.prototype.find\<close>: the first element that satisfies the predicate.\<close>

fun find_first :: "('a \<Rightarrow> bool) \<Rightarrow> 'a list \<Rightarrow> 'a option" where
  "find_first P [] = None"
| "find_first P (x # xs) = (if P x then Some x else find_first P xs)"

abbreviation sq :: string where "sq \<equiv> [CHR 0x27]"
abbreviation dq :: string where "dq \<equiv> [CHR 0x22]"

text \<open>
  The conversion of an object to a primitive value calls the methods \<open>toString\<close> and
  \<open>valueOf\<close> of the object, in an order that the hint decides: a template literal
  asks for a string, the operator \<open>+\<close> gives no preference.
\<close>

datatype hint = HintString | HintDefault

text \<open>
  The parts of the JavaScript and Node runtime that the library calls and that are
  not code of the repository. They are parameters of the model:
  \<open>to_string\<close> is the conversion of a primitive value other than a symbol to a string,
  in a template literal or a string concatenation; \<open>to_primitive\<close> is the conversion
  of an object to a primitive value (\<open>None\<close> when no method of the object yields one or
  a method raises); \<open>json_stringify\<close> and \<open>json_parse\<close> are \<open>JSON.stringify\<close> and
  \<open>JSON.parse\<close> (\<open>None\<close> when the text is rejected with a SyntaxError),
  \<open>to_base64\<close> is \<open>buf.toString('base64')\<close> and \<open>from_base64\<close> is
  \<open>Buffer.from(x, 'base64')\<close> (\<open>None\<close> when it raises).
\<close>

record js_runtime =
  to_string :: "jsval \<Rightarrow> string"
  to_primitive :: "hint \<Rightarrow> jsval \<Rightarrow> jsval option"
  json_stringify :: "jsval \<Rightarrow> string"
  json_parse :: "string \<Rightarrow> jsval option"
  to_base64 :: "nat list \<Rightarrow> string"
  from_base64 :: "jsval \<Rightarrow> nat list option"

section \<open>Errors\<close>

text \<open>One constructor for each \<open>throw\<close> of the sources and for each runtime TypeError
  the modelled paths can raise.\<close>

datatype error =
    InvalidColumnType
  | AutoIncrementOnNonInteger
  | TableNamesDiffer
  | PrimaryKeyConflict
  | CannotWrite
  | CannotRead
  | NullType
  | UnknownType
  | ClassNotRegistered
  | UnknownModelVersion
  | DBInvalidData
  | UnknownColumnType
  | TypeError

definition bindE :: "error + 'a \<Rightarrow> ('a \<Rightarrow> error + 'b) \<Rightarrow> error + 'b" where
  "bindE r f = (case r of Inl e \<Rightarrow> Inl e | Inr x \<Rightarrow> f x)"

lemma bindE_cong [fundef_cong]:
  "r = r' \<Longrightarrow> (\<And>x. r' = Inr x \<Longrightarrow> f x = f' x) \<Longrightarrow> bindE r f = bindE r' f'"
  by (auto simp: bindE_def split: sum.splits)

lemma bindE_simps [simp]:
  "bindE (Inl e) f = Inl e"
  "bindE (Inr x) f = f x"
  by (simp_all add: bindE_def)

text \<open>
  The string that a value becomes in a template literal (hint \<open>HintString\<close>) or as the
  right operand of \<open>+\<close> after a string (hint \<open>HintDefault\<close>). An object is first
  converted to a primitive value; a symbol cannot be converted and raises a TypeError.
\<close>

definition ToString :: "js_runtime \<Rightarrow> jsval \<Rightarrow> error + string" where
  "ToString rt v = (if typeof v = TSymbol then Inl TypeError else Inr (to_string rt v))"

definition string_of :: "js_runtime \<Rightarrow> hint \<Rightarrow> jsval \<Rightarrow> error + string" where
  "string_of rt h v =
     (if is_primitive v then ToString rt v
      else case to_primitive rt h v of
             None \<Rightarrow> Inl TypeError
           | Some p \<Rightarrow> ToString rt p)"

section \<open>Table models (index.ts)\<close>

datatype ColumnType =
  T_string | T_number | T_boolean | T_json | T_integer | T_blob
  | T_other string

record TableColumn =
  type :: ColumnType
  name :: string
  mappedTo :: "string option"
  nullable :: bool
  defaultValue :: jsval
  isPrimaryKey :: bool
  autoIncrement :: bool

record Model =
  tableName :: string
  columns :: "TableColumn list"
  database :: string

text \<open>A row of \<open>PRAGMA table_info\<close>.\<close>

record datum =
  d_name :: string
  d_type :: string
  d_notnull :: int
  d_dflt_value :: jsval
  d_pk :: int

record where_part =
  w_clause :: string
  w_values :: "jsval list option"

record order_part =
  o_by :: string
  o_desc :: "bool option"

record SelectQuery =
  q_where :: "where_part option"
  q_order :: "order_part option"
  q_limit :: "jsnum option"
  q_offset :: "jsnum option"

text \<open>The type requires \<open>group\<close>; the builder tests it like the optional parts.\<close>

record AggregateSelectQuery = SelectQuery +
  q_select :: string
  q_group :: "string list option"
  q_having :: "where_part option"

record BuiltQuery =
  query :: string
  params :: "jsval list"

section \<open>json.ts\<close>

text \<open>
  A class, as far as the codec can observe it: its identity, its \<open>name\<close>, the
  identities of its ancestors and the own enumerable properties that \<open>new C()\<close>
  creates (the constructor is taken to succeed and to be deterministic, and the class
  to define no accessor for a property that is assigned to an instance).
\<close>

record class_ref =
  c_id :: nat
  c_name :: string
  c_ancestors :: "nat list"
  c_init :: "(string \<times> jsval) list"

record serializable_class =
  classRef :: class_ref
  ignoredProps :: "string list"

text \<open>The module-level array \<open>serializableClasses\<close>, in registration order.\<close>

type_synonym registry = "serializable_class list"

fun instanceof :: "jsval \<Rightarrow> class_ref \<Rightarrow> bool" where
  "instanceof (JInst cs kvs) c = (c_id c \<in> set cs)"
| "instanceof v c = False"

definition new_instance :: "class_ref \<Rightarrow> jsval" where
  "new_instance c = JInst (c_id c # c_ancestors c) (c_init c)"

function show_nat :: "nat \<Rightarrow> string" where
  "show_nat n = (if n < 10 then [''0123456789'' ! n]
                 else show_nat (n div 10) @ [''0123456789'' ! (n mod 10)])"
  by pat_completeness auto
termination
  by (relation "measure id") auto

declare show_nat.simps [simp del]

text \<open>The entries of an array-like value: the index, in decimal, and the element.\<close>

definition index_entries :: "jsval list \<Rightarrow> (string \<times> jsval) list" where
  "index_entries xs = zip (map show_nat [0..<length xs]) xs"

text \<open>
  \<open>Object.entries\<close>. It raises a TypeError on \<open>null\<close> and \<open>undefined\<close>; a string has
  one entry for each character, a typed array one for each byte, and a Map, a number,
  a boolean, a bigint, a symbol and a function have none.
\<close>

fun object_entries :: "jsval \<Rightarrow> error + (string \<times> jsval) list" where
  "object_entries JUndefined = Inl TypeError"
| "object_entries JNull = Inl TypeError"
| "object_entries (JStr s) = Inr (index_entries (map (\<lambda>c. JStr [c]) s))"
| "object_entries (JArr xs) = Inr (index_entries xs)"
| "object_entries (JObj kvs) = Inr kvs"
| "object_entries (JBuf bs) = Inr (index_entries (map (\<lambda>b. JNum (Finite (of_nat b))) bs))"
| "object_entries (JU8 bs) = Inr (index_entries (map (\<lambda>b. JNum (Finite (of_nat b))) bs))"
| "object_entries (JInst cs kvs) = Inr kvs"
| "object_entries v = Inr []"

text \<open>
  The order of \<open>Object.entries\<close>: first the keys that are array indices, by ascending
  value, then the other keys in the order of their creation. An array index is the
  decimal numeral, without a leading zero, of a number below \<open>2^32 - 1\<close>.
\<close>

definition is_digit :: "char \<Rightarrow> bool" where
  "is_digit c = (c \<in> set ''0123456789'')"

definition digit_value :: "char \<Rightarrow> nat" where
  "digit_value c = of_char c - 48"

definition to_index :: "string \<Rightarrow> nat option" where
  "to_index k =
     (let n = foldl (\<lambda>a c. 10 * a + digit_value c) 0 k
      in if k \<noteq> [] \<and> list_all is_digit k \<and> (k = ''0'' \<or> hd k \<noteq> CHR ''0'')
            \<and> n < 4294967295
         then Some n else None)"

definition comes_before :: "string \<Rightarrow> string \<Rightarrow> bool" where
  "comes_before k k' =
     (case to_index k of
        None \<Rightarrow> False
      | Some i \<Rightarrow> (case to_index k' of None \<Rightarrow> True | Some j \<Rightarrow> i < j))"

text \<open>A new property takes its place in that order.\<close>

fun insert_prop :: "(string \<times> jsval) list \<Rightarrow> string \<Rightarrow> jsval \<Rightarrow> (string \<times> jsval) list" where
  "insert_prop [] k v = [(k, v)]"
| "insert_prop ((k', v') # kvs) k v =
     (if comes_before k k' then (k, v) # (k', v') # kvs
      else (k', v') # insert_prop kvs k v)"

text \<open>An existing property keeps its place.\<close>

fun replace_prop :: "(string \<times> jsval) list \<Rightarrow> string \<Rightarrow> jsval \<Rightarrow> (string \<times> jsval) list" where
  "replace_prop [] k v = []"
| "replace_prop ((k', v') # kvs) k v =
     (if k' = k then (k, v) # kvs else (k', v') # replace_prop kvs k v)"

text \<open>
  \<open>obj[key] = value\<close> on the list of the own properties of an object that inherits
  from \<open>Object.prototype\<close>. An own property of that name is given the value.
  Otherwise the key \<open>__proto__\<close> reaches the setter of \<open>Object.prototype\<close>: no property
  is created; a value that is an object or \<open>null\<close> becomes the prototype of \<open>obj\<close>
  and any other value is dropped. The model has no record of the prototype of a plain
  object, so it follows such an object through its own properties only. Every other
  key creates a property.
\<close>

definition set_prop :: "(string \<times> jsval) list \<Rightarrow> string \<Rightarrow> jsval \<Rightarrow> (string \<times> jsval) list" where
  "set_prop kvs k v =
     (if k \<in> fst ` set kvs then replace_prop kvs k v
      else if k = ''__proto__'' then kvs
      else insert_prop kvs k v)"

text \<open>\<open>obj.key\<close>: the own property, or \<open>undefined\<close>. No property read below (\<open>type\<close>,
  \<open>data\<close>, \<open>version\<close>, \<open>models\<close>) exists on a built-in prototype.\<close>

fun get_prop :: "jsval \<Rightarrow> string \<Rightarrow> jsval" where
  "get_prop (JObj kvs) k = (case map_of kvs k of Some v \<Rightarrow> v | None \<Rightarrow> JUndefined)"
| "get_prop (JInst cs kvs) k = (case map_of kvs k of Some v \<Rightarrow> v | None \<Rightarrow> JUndefined)"
| "get_prop v k = JUndefined"

definition isSerializable :: "jsval \<Rightarrow> bool" where
  "isSerializable obj =
     (typeof obj \<noteq> TBigint \<and> typeof obj \<noteq> TFunction \<and> typeof obj \<noteq> TSymbol)"

text \<open>The object literal \<open>{ data: d, type: t }\<close>.\<close>

definition envelope :: "jsval \<Rightarrow> string \<Rightarrow> jsval" where
  "envelope d t = JObj [(''data'', d), (''type'', JStr t)]"

text \<open>\<open>[...val.entries()]\<close> of a Map: an array of two-element arrays.\<close>

definition map_entries :: "(jsval \<times> jsval) list \<Rightarrow> jsval list" where
  "map_entries kvs = map (\<lambda>(k, v). JArr [k, v]) kvs"

text \<open>Weights for the termination argument of the serializer.\<close>

fun weight :: "jsval \<Rightarrow> nat" where
  "weight (JArr xs) = Suc (sum_list (map (\<lambda>x. Suc (weight x)) xs))"
| "weight (JObj kvs) = Suc (sum_list (map (\<lambda>p. Suc (weight (snd p))) kvs))"
| "weight (JInst cs kvs) = Suc (sum_list (map (\<lambda>p. Suc (weight (snd p))) kvs))"
| "weight (JMap kvs) =
     Suc (sum_list (map (\<lambda>p. 4 + weight (fst p) + weight (snd p)) kvs))"
| "weight (JStr s) = length s"
| "weight (JBuf bs) = length bs"
| "weight (JU8 bs) = length bs"
| "weight v = 0"

definition wprim :: "jsval \<Rightarrow> nat" where
  "wprim v = (if typeof v = TObject \<and> v \<noteq> JNull then weight v else 0)"

lemma weight_map_entries:
  "(\<Sum>x\<leftarrow>map_entries kvs. Suc (weight x)) =
   (\<Sum>p\<leftarrow>kvs. 4 + weight (fst p) + weight (snd p))"
  by (induction kvs) (auto simp: map_entries_def)

lemma sum_wprim_le:
  "(\<Sum>p\<leftarrow>es. Suc (wprim (snd p))) \<le> (\<Sum>p\<leftarrow>es. Suc (weight (snd p)))"
  by (induction es) (auto simp: wprim_def)

lemma sum_wprim_zip:
  "length ks = length xs \<Longrightarrow> \<forall>x \<in> set xs. wprim x = 0 \<Longrightarrow>
   (\<Sum>p\<leftarrow>zip ks xs. Suc (wprim (snd p))) = length xs"
  by (induction ks xs rule: list_induct2) auto

lemma sum_wprim_index_entries:
  "\<forall>x \<in> set xs. wprim x = 0 \<Longrightarrow>
   (\<Sum>p\<leftarrow>index_entries xs. Suc (wprim (snd p))) = length xs"
  unfolding index_entries_def by (rule sum_wprim_zip) auto

text \<open>
  \<open>writeValue\<close> and \<open>jsonify\<close>. The two loops of \<open>jsonify\<close> are \<open>jsonify_items\<close> (over
  the items of an array) and \<open>jsonify_props\<close> (over the entries of an object); their
  last argument is \<open>parsed\<close>, the result built so far.
\<close>

function writeValue :: "js_runtime \<Rightarrow> registry \<Rightarrow> jsval \<Rightarrow> error + jsval"
  and jsonify :: "js_runtime \<Rightarrow> registry \<Rightarrow> jsval \<Rightarrow> string list \<Rightarrow> error + jsval"
  and jsonify_items :: "js_runtime \<Rightarrow> registry \<Rightarrow> jsval list \<Rightarrow> jsval list \<Rightarrow> error + jsval"
  and jsonify_props :: "js_runtime \<Rightarrow> registry \<Rightarrow> (string \<times> jsval) list \<Rightarrow> string list
        \<Rightarrow> (string \<times> jsval) list \<Rightarrow> error + jsval"
where
  "writeValue rt reg val =
     (if loose_null val then Inr JNull
      else case typeof val of
        TBoolean \<Rightarrow> Inr val
      | TNumber \<Rightarrow> Inr val
      | TString \<Rightarrow> Inr val
      | TObject \<Rightarrow>
          (case val of
             JMap kvs \<Rightarrow>
               bindE (jsonify rt reg (JArr (map_entries kvs)) [])
                 (\<lambda>d. Inr (envelope d ''Map''))
           | JArr xs \<Rightarrow> jsonify rt reg val []
           | JBuf bs \<Rightarrow> Inr (envelope (JStr (to_base64 rt bs)) ''Buffer'')
           | _ \<Rightarrow>
              (case find_first (\<lambda>c. instanceof val (classRef c)) reg of
                 Some clas \<Rightarrow>
                   bindE (jsonify rt reg val (ignoredProps clas))
                     (\<lambda>d. Inr (envelope d (''custom-'' @ c_name (classRef clas))))
               | None \<Rightarrow>
                   bindE (jsonify rt reg val []) (\<lambda>d. Inr (envelope d ''object''))))
      | _ \<Rightarrow> Inl CannotWrite)"
| "jsonify rt reg obj ignored =
     (case obj of
        JArr xs \<Rightarrow> jsonify_items rt reg xs []
      | _ \<Rightarrow> bindE (object_entries obj) (\<lambda>es. jsonify_props rt reg es ignored []))"
| "jsonify_items rt reg [] parsed = Inr (JArr parsed)"
| "jsonify_items rt reg (item # items) parsed =
     (if \<not> isSerializable item then jsonify_items rt reg items parsed
      else bindE (writeValue rt reg item)
             (\<lambda>w. jsonify_items rt reg items (parsed @ [w])))"
| "jsonify_props rt reg [] ignored parsed = Inr (JObj parsed)"
| "jsonify_props rt reg ((key, value) # es) ignored parsed =
     (if \<not> isSerializable value then jsonify_props rt reg es ignored parsed
      else if key \<in> set ignored then jsonify_props rt reg es ignored parsed
      else bindE (writeValue rt reg value)
             (\<lambda>w. jsonify_props rt reg es ignored (set_prop parsed key w)))"
  by pat_completeness auto

termination writeValue
  apply (relation "measure (\<lambda>x. case x of
      Inl (Inl (rt, reg, v)) \<Rightarrow>
        (if typeof v = TObject \<and> v \<noteq> JNull then 3 * weight v + 2 else 0)
    | Inl (Inr (rt, reg, v, ig)) \<Rightarrow> 3 * weight v + 1
    | Inr (Inl (rt, reg, xs, acc)) \<Rightarrow> 3 * sum_list (map (\<lambda>x. Suc (weight x)) xs)
    | Inr (Inr (rt, reg, es, ig, acc)) \<Rightarrow>
        3 * sum_list (map (\<lambda>p. Suc (wprim (snd p))) es))")
  apply (simp_all add: loose_null_def weight_map_entries)
  subgoal for obj s es
    using sum_wprim_index_entries [of "map (\<lambda>c. JStr [c]) s"] by (auto simp: wprim_def)
  subgoal for obj x10 es
    using sum_wprim_le [of es] by simp
  subgoal for obj bs es
    using sum_wprim_index_entries [of "map (\<lambda>b. JNum (Finite (rat_of_nat b))) bs"]
    by (auto simp: wprim_def)
  subgoal for obj bs es
    using sum_wprim_index_entries [of "map (\<lambda>b. JNum (Finite (rat_of_nat b))) bs"]
    by (auto simp: wprim_def)
  subgoal for obj cs x142 es
    using sum_wprim_le [of es] by simp
  subgoal for key v es ig
    by (simp add: wprim_def)
  done

text \<open>\<open>s.startsWith(p)\<close>.\<close>

definition startsWith :: "string \<Rightarrow> string \<Rightarrow> bool" where
  "startsWith s p = (take (length p) s = p)"

text \<open>\<open>x[i]\<close> for an index \<open>i\<close>.\<close>

fun get_index :: "jsval \<Rightarrow> nat \<Rightarrow> jsval" where
  "get_index (JArr xs) i = (if i < length xs then xs ! i else JUndefined)"
| "get_index (JBuf bs) i = (if i < length bs then JNum (Finite (of_nat (bs ! i))) else JUndefined)"
| "get_index (JU8 bs) i = (if i < length bs then JNum (Finite (of_nat (bs ! i))) else JUndefined)"
| "get_index v i = get_prop v (show_nat i)"

text \<open>
  \<open>map.set(k, v)\<close> on the entry list of a Map. Keys are compared by SameValueZero:
  primitives by value, objects by identity. The entries that \<open>readValue\<close> hands to
  \<open>new Map\<close> hold freshly allocated objects, so an object key is always a new key.
\<close>

fun map_set :: "(jsval \<times> jsval) list \<Rightarrow> jsval \<Rightarrow> jsval \<Rightarrow> (jsval \<times> jsval) list" where
  "map_set [] k v = [(k, v)]"
| "map_set ((k', v') # kvs) k v =
     (if is_primitive k \<and> k' = k then (k, v) # kvs else (k', v') # map_set kvs k v)"

text \<open>The loop of \<open>new Map(iterable)\<close> over the items of an array: an item that is not
  an object is a TypeError, otherwise its \<open>[0]\<close> and \<open>[1]\<close> are key and value.\<close>

fun map_add_items :: "jsval list \<Rightarrow> (jsval \<times> jsval) list \<Rightarrow> error + jsval" where
  "map_add_items [] kvs = Inr (JMap kvs)"
| "map_add_items (item # items) kvs =
     (if is_primitive item then Inl TypeError
      else map_add_items items (map_set kvs (get_index item 0) (get_index item 1)))"

text \<open>\<open>new Map(x)\<close>: \<open>null\<close> and \<open>undefined\<close> give an empty Map, an array is read as a
  list of entries, a Map is copied; strings and typed arrays are iterable but their
  items are primitives; anything else is not iterable.\<close>

fun new_Map :: "jsval \<Rightarrow> error + jsval" where
  "new_Map JUndefined = Inr (JMap [])"
| "new_Map JNull = Inr (JMap [])"
| "new_Map (JArr items) = map_add_items items []"
| "new_Map (JMap kvs) = Inr (JMap kvs)"
| "new_Map (JStr s) = (if s = [] then Inr (JMap []) else Inl TypeError)"
| "new_Map (JBuf bs) = (if bs = [] then Inr (JMap []) else Inl TypeError)"
| "new_Map (JU8 bs) = (if bs = [] then Inr (JMap []) else Inl TypeError)"
| "new_Map v = Inl TypeError"

text \<open>\<open>Object.assign(target, source)\<close> on an instance: every own enumerable property of
  the source is set on the target; a \<open>null\<close> or \<open>undefined\<close> source is skipped.\<close>

fun object_assign :: "jsval \<Rightarrow> jsval \<Rightarrow> jsval" where
  "object_assign (JInst cs props) src =
     (case object_entries src of
        Inl e \<Rightarrow> JInst cs props
      | Inr es \<Rightarrow> JInst cs (fold (\<lambda>p ps. set_prop ps (fst p) (snd p)) es props))"
| "object_assign target src = target"

lemma weight_map_of:
  "map_of kvs k = Some v \<Longrightarrow> weight v \<le> (\<Sum>p\<leftarrow>kvs. Suc (weight (snd p)))"
  by (induction kvs) (auto split: if_splits)

lemma weight_get_prop: "weight (get_prop v k) \<le> weight v"
  by (cases v) (auto split: option.splits dest: weight_map_of)

text \<open>
  \<open>readValue\<close> and \<open>dejsonify\<close>, with the two loops of \<open>dejsonify\<close> as
  \<open>dejsonify_items\<close> and \<open>dejsonify_props\<close>. A \<open>type\<close> property that is neither
  nullish nor a string has no \<open>startsWith\<close> method, so the call raises a TypeError
  (an object that carries a function of that name is outside the model).
\<close>

function readValue :: "js_runtime \<Rightarrow> registry \<Rightarrow> jsval \<Rightarrow> bool \<Rightarrow> error + jsval"
  and dejsonify :: "js_runtime \<Rightarrow> registry \<Rightarrow> jsval \<Rightarrow> bool \<Rightarrow> error + jsval"
  and dejsonify_items :: "js_runtime \<Rightarrow> registry \<Rightarrow> jsval list \<Rightarrow> bool \<Rightarrow> jsval list
        \<Rightarrow> error + jsval"
  and dejsonify_props :: "js_runtime \<Rightarrow> registry \<Rightarrow> (string \<times> jsval) list \<Rightarrow> bool
        \<Rightarrow> (string \<times> jsval) list \<Rightarrow> error + jsval"
where
  "readValue rt reg val compatMode =
     (if loose_null val then Inr JNull
      else case typeof val of
        TBoolean \<Rightarrow> Inr val
      | TNumber \<Rightarrow> Inr val
      | TString \<Rightarrow> Inr val
      | TObject \<Rightarrow>
          (if instanceof_Array val then dejsonify rt reg val compatMode
           else if loose_null (get_prop val ''type'') then
             (if compatMode then dejsonify rt reg val compatMode else Inl NullType)
           else if get_prop val ''type'' = JStr ''Map'' then
             bindE (dejsonify rt reg (get_prop val ''data'') compatMode) new_Map
           else if get_prop val ''type'' = JStr ''Buffer'' then
             (case from_base64 rt (get_prop val ''data'') of
                None \<Rightarrow> Inl TypeError
              | Some bs \<Rightarrow> Inr (JBuf bs))
           else if get_prop val ''type'' = JStr ''object'' then
             dejsonify rt reg (get_prop val ''data'') compatMode
           else (case get_prop val ''type'' of
                   JStr t \<Rightarrow>
                     if startsWith t ''custom-'' then
                       (case find_first
                               (\<lambda>c. c_name (classRef c) = drop (length ''custom-'') t) reg of
                          Some clas \<Rightarrow>
                            bindE (dejsonify rt reg (get_prop val ''data'') compatMode)
                              (\<lambda>fields. Inr (object_assign (new_instance (classRef clas)) fields))
                        | None \<Rightarrow> Inl ClassNotRegistered)
                     else if compatMode then dejsonify rt reg val compatMode
                     else Inl UnknownType
                 | _ \<Rightarrow> Inl TypeError))
      | _ \<Rightarrow> Inl CannotRead)"
| "dejsonify rt reg jsonObj compatMode =
     (case jsonObj of
        JArr xs \<Rightarrow> dejsonify_items rt reg xs compatMode []
      | _ \<Rightarrow> bindE (object_entries jsonObj)
               (\<lambda>es. dejsonify_props rt reg es compatMode []))"
| "dejsonify_items rt reg [] compatMode parsed = Inr (JArr parsed)"
| "dejsonify_items rt reg (item # items) compatMode parsed =
     bindE (readValue rt reg item compatMode)
       (\<lambda>r. dejsonify_items rt reg items compatMode (parsed @ [r]))"
| "dejsonify_props rt reg [] compatMode parsed = Inr (JObj parsed)"
| "dejsonify_props rt reg ((key, value) # es) compatMode parsed =
     bindE (readValue rt reg value compatMode)
       (\<lambda>r. dejsonify_props rt reg es compatMode (set_prop parsed key r))"
  by pat_completeness auto

termination readValue
  apply (relation "measure (\<lambda>x. case x of
      Inl (Inl (rt, reg, v, c)) \<Rightarrow>
        (if typeof v = TObject \<and> v \<noteq> JNull then 3 * weight v + 2 else 0)
    | Inl (Inr (rt, reg, v, c)) \<Rightarrow> 3 * weight v + 1
    | Inr (Inl (rt, reg, xs, c, acc)) \<Rightarrow> 3 * sum_list (map (\<lambda>x. Suc (weight x)) xs)
    | Inr (Inr (rt, reg, es, c, acc)) \<Rightarrow>
        3 * sum_list (map (\<lambda>p. Suc (wprim (snd p))) es))")
  apply (simp_all add: loose_null_def)
  subgoal for val
    using weight_get_prop [of val "''data''"] by simp
  subgoal for val
    using weight_get_prop [of val "''data''"] by simp
  subgoal for reg val t clas
    using weight_get_prop [of val "''data''"] by simp
  subgoal for obj s es
    using sum_wprim_index_entries [of "map (\<lambda>c. JStr [c]) s"] by (auto simp: wprim_def)
  subgoal for obj x10 es
    using sum_wprim_le [of es] by simp
  subgoal for obj bs es
    using sum_wprim_index_entries [of "map (\<lambda>b. JNum (Finite (rat_of_nat b))) bs"]
    by (auto simp: wprim_def)
  subgoal for obj bs es
    using sum_wprim_index_entries [of "map (\<lambda>b. JNum (Finite (rat_of_nat b))) bs"]
    by (auto simp: wprim_def)
  subgoal for obj cs x142 es
    using sum_wprim_le [of es] by simp
  subgoal for v es
    by (simp add: wprim_def)
  done

text \<open>The two defining equations are unfolded on request only.\<close>

declare writeValue.simps [simp del] readValue.simps [simp del]

section \<open>builder.ts\<close>

fun getSqlType :: "ColumnType \<Rightarrow> error + string" where
  "getSqlType T_boolean = Inr ''INTEGER''"
| "getSqlType T_integer = Inr ''INTEGER''"
| "getSqlType T_json = Inr ''TEXT''"
| "getSqlType T_string = Inr ''TEXT''"
| "getSqlType T_blob = Inr ''BLOB''"
| "getSqlType T_number = Inr ''REAL''"
| "getSqlType (T_other s) = Inl InvalidColumnType"

fun getDefaultValue :: "js_runtime \<Rightarrow> registry \<Rightarrow> ColumnType \<Rightarrow> jsval \<Rightarrow> error + jsval" where
  "getDefaultValue rt reg T_boolean v = Inr (JNum (Finite (if truthy v then 1 else 0)))"
| "getDefaultValue rt reg T_number v = Inr v"
| "getDefaultValue rt reg T_integer v = Inr v"
| "getDefaultValue rt reg T_json v =
     bindE (jsonify rt reg v []) (\<lambda>j. Inr (JStr (sq @ json_stringify rt j @ sq)))"
| "getDefaultValue rt reg T_string v =
     bindE (string_of rt HintString v) (\<lambda>s. Inr (JStr (sq @ s @ sq)))"
| "getDefaultValue rt reg T_blob v = Inr v"
| "getDefaultValue rt reg (T_other s) v = Inl InvalidColumnType"

definition buildColumnQuery :: "js_runtime \<Rightarrow> registry \<Rightarrow> TableColumn \<Rightarrow> error + string" where
  "buildColumnQuery rt reg column =
     (if autoIncrement column \<and> type column \<noteq> T_integer then Inl AutoIncrementOnNonInteger
      else
        bindE (getSqlType (type column)) (\<lambda>sqlType.
        bindE (if loose_null (defaultValue column) \<and> \<not> autoIncrement column then Inr []
               else bindE (getDefaultValue rt reg (type column) (defaultValue column))
                      (\<lambda>d. bindE (string_of rt HintDefault d)
                         (\<lambda>s. Inr (''DEFAULT '' @ s)))) (\<lambda>dflt.
        Inr (dq @ name column @ dq @ '' '' @ sqlType @ '' ''
             @ (if nullable column then [] else ''NOT NULL'') @ '' ''
             @ dflt @ '' ''
             @ (if isPrimaryKey column then ''PRIMARY KEY'' else []) @ '' ''
             @ (if autoIncrement column then ''AUTOINCREMENT'' else [])))))"

text \<open>A \<open>for\<close> loop or a \<open>map\<close> whose body can raise: the first error ends it.\<close>

fun mapE :: "('a \<Rightarrow> error + 'b) \<Rightarrow> 'a list \<Rightarrow> error + 'b list" where
  "mapE f [] = Inr []"
| "mapE f (x # xs) = bindE (f x) (\<lambda>y. bindE (mapE f xs) (\<lambda>ys. Inr (y # ys)))"

definition buildTableQuery :: "js_runtime \<Rightarrow> registry \<Rightarrow> Model \<Rightarrow> error + string" where
  "buildTableQuery rt reg model =
     bindE (mapE (\<lambda>column. bindE (buildColumnQuery rt reg column) (\<lambda>c. Inr (c @ '','')))
              (columns model)) (\<lambda>cs.
       let str = (''CREATE TABLE '' @ database model @ ''.'' @ sq @ tableName model @ sq @ '' ('')
                   # cs
       in Inr (join [CHR 0x0A] (butlast str @ [butlast (last str)] @ ['')''])))"

text \<open>\<open>model.columns.find((c) => c.isPrimaryKey)?.name\<close>.\<close>

definition primaryKeyName :: "Model \<Rightarrow> string option" where
  "primaryKeyName model = map_option name (find_first isPrimaryKey (columns model))"

definition buildAlterQuery ::
  "js_runtime \<Rightarrow> registry \<Rightarrow> Model \<Rightarrow> Model \<Rightarrow> error + string list" where
  "buildAlterQuery rt reg existingModel actualModel =
     (if tableName existingModel \<noteq> tableName actualModel then Inl TableNamesDiffer
      else if primaryKeyName existingModel \<noteq> primaryKeyName actualModel
      then Inl PrimaryKeyConflict
      else mapE (\<lambda>col. bindE (buildColumnQuery rt reg col) (\<lambda>c.
                   Inr (''ALTER TABLE '' @ database actualModel @ ''.'' @ sq
                        @ tableName actualModel @ sq @ '' ADD COLUMN '' @ c)))
             (filter (\<lambda>col. find_first (\<lambda>c. name c = name col \<or> Some (name c) = mappedTo col)
                               (columns existingModel) = None)
                (columns actualModel)))"

fun buildModelFromData_loop :: "Model \<Rightarrow> datum list \<Rightarrow> TableColumn list \<Rightarrow> TableColumn list" where
  "buildModelFromData_loop ogModel [] cols = cols"
| "buildModelFromData_loop ogModel (d # ds) cols =
     (case find_first (\<lambda>t. name t = d_name d \<or> mappedTo t = Some (d_name d))
             (columns ogModel) of
        None \<Rightarrow> buildModelFromData_loop ogModel ds cols
      | Some ogCol \<Rightarrow>
          buildModelFromData_loop ogModel ds
            (cols @ [\<lparr> type = type ogCol, name = d_name d, mappedTo = mappedTo ogCol,
                       nullable = (d_notnull d = 0), defaultValue = d_dflt_value d,
                       isPrimaryKey = (d_pk d = 1), autoIncrement = autoIncrement ogCol \<rparr>]))"

definition buildModelFromData :: "Model \<Rightarrow> datum list \<Rightarrow> Model" where
  "buildModelFromData ogModel data =
     \<lparr> tableName = tableName ogModel,
       columns = buildModelFromData_loop ogModel data [],
       database = database ogModel \<rparr>"

text \<open>\<open>query.where?.values ?? []\<close>.\<close>

definition values_or_empty :: "where_part option \<Rightarrow> jsval list" where
  "values_or_empty w =
     (case w of None \<Rightarrow> [] | Some x \<Rightarrow> (case w_values x of None \<Rightarrow> [] | Some vs \<Rightarrow> vs))"

definition order_clause :: "order_part \<Rightarrow> string" where
  "order_clause ob = ''ORDER BY '' @ o_by ob @ (if o_desc ob = Some True then '' DESC'' else [])"

text \<open>The \<open>LIMIT\<close> and \<open>OFFSET\<close> parts: \<open>if (query.limit)\<close> tests the truthiness of the
  number, so \<open>0\<close> and \<open>NaN\<close> add nothing.\<close>

definition number_clause :: "js_runtime \<Rightarrow> string \<Rightarrow> jsnum option \<Rightarrow> string list" where
  "number_clause rt kw n =
     (case n of None \<Rightarrow> []
      | Some x \<Rightarrow> if truthy (JNum x) then [kw @ '' '' @ to_string rt (JNum x)] else [])"




text \<open>The loop of \<open>buildInsertQuery\<close> over \<open>Object.entries(data)\<close>; when no column of the
  model answers to a key, \<open>modelCol\<close> is \<open>undefined\<close> and reading its \<open>isPrimaryKey\<close>
  raises a TypeError.\<close>

fun buildInsertQuery_loop ::
  "Model \<Rightarrow> (string \<times> jsval) list \<Rightarrow> string list \<Rightarrow> jsval list
   \<Rightarrow> error + (string list \<times> jsval list)" where
  "buildInsertQuery_loop model [] cols ps = Inr (cols, ps)"
| "buildInsertQuery_loop model ((col, v) # es) cols ps =
     (case find_first (\<lambda>c. name c = col \<or> mappedTo c = Some col) (columns model) of
        None \<Rightarrow> Inl TypeError
      | Some modelCol \<Rightarrow>
          if isPrimaryKey modelCol \<and> autoIncrement modelCol
          then buildInsertQuery_loop model es cols ps
          else buildInsertQuery_loop model es (cols @ [col]) (ps @ [v]))"

definition buildInsertQuery :: "Model \<Rightarrow> (string \<times> jsval) list \<Rightarrow> error + BuiltQuery" where
  "buildInsertQuery model data =
     bindE (buildInsertQuery_loop model data [] []) (\<lambda>(cols, ps).
       Inr \<lparr> query = ''INSERT INTO '' @ sq @ tableName model @ sq @ '' ('' @ join '', '' cols
                     @ '') VALUES ('' @ join '', '' (map (\<lambda>c. ''?'') cols) @ '')'',
             params = ps \<rparr>)"

text \<open>The loop of \<open>buildUpdateQuery\<close>; \<open>primaryCol\<close> and \<open>primaryVal\<close> start undefined.\<close>

fun buildUpdateQuery_loop ::
  "Model \<Rightarrow> (string \<times> jsval) list \<Rightarrow> string list \<Rightarrow> jsval list \<Rightarrow> string option \<Rightarrow> jsval
   \<Rightarrow> error + (string list \<times> jsval list \<times> string option \<times> jsval)" where
  "buildUpdateQuery_loop model [] cols ps primaryCol primaryVal =
     Inr (cols, ps, primaryCol, primaryVal)"
| "buildUpdateQuery_loop model ((col, v) # es) cols ps primaryCol primaryVal =
     (case find_first (\<lambda>c. name c = col \<or> mappedTo c = Some col) (columns model) of
        None \<Rightarrow> Inl TypeError
      | Some modelCol \<Rightarrow>
          if isPrimaryKey modelCol
          then buildUpdateQuery_loop model es cols ps
                 (Some (case mappedTo modelCol of Some m \<Rightarrow> m | None \<Rightarrow> name modelCol)) v
          else buildUpdateQuery_loop model es (cols @ [col]) (ps @ [v]) primaryCol primaryVal)"

definition buildUpdateQuery :: "Model \<Rightarrow> (string \<times> jsval) list \<Rightarrow> error + BuiltQuery" where
  "buildUpdateQuery model data =
     bindE (buildUpdateQuery_loop model data [] [] None JUndefined)
       (\<lambda>(cols, ps, primaryCol, primaryVal).
         Inr \<lparr> query = ''UPDATE '' @ sq @ tableName model @ sq @ '' SET ''
                       @ join '', '' (map (\<lambda>c. c @ '' = ?'') cols)
                       @ '' WHERE ''
                       @ (case primaryCol of None \<Rightarrow> ''undefined'' | Some p \<Rightarrow> p) @ '' = ?'',
               params = ps @ [primaryVal] \<rparr>)"


definition buildAggregateQuery ::
  "js_runtime \<Rightarrow> 'a AggregateSelectQuery_scheme \<Rightarrow> Model \<Rightarrow> BuiltQuery" where
  "buildAggregateQuery rt q model =
     (let str = [''SELECT '' @ q_select q @ '' FROM '' @ database model @ ''.'' @ sq
                   @ tableName model @ sq]
              @ (case q_where q of None \<Rightarrow> [] | Some w \<Rightarrow> [''WHERE '' @ w_clause w])
              @ (case q_group q of None \<Rightarrow> [] | Some cols \<Rightarrow> [''GROUP BY '' @ join '', '' cols])
              @ (case q_having q of None \<Rightarrow> [] | Some h \<Rightarrow> [''HAVING '' @ w_clause h])
              @ (case q_order q of None \<Rightarrow> [] | Some ob \<Rightarrow> [order_clause ob])
              @ number_clause rt ''LIMIT'' (q_limit q)
              @ number_clause rt ''OFFSET'' (q_offset q)
      in \<lparr> query = join '' '' str,
            params = values_or_empty (q_where q) @ values_or_empty (q_having q) \<rparr>)"

text \<open>\<open>isProvidedTypeValid\<close>. For a column type outside the declared union the \<open>switch\<close>
  falls through and the function returns \<open>undefined\<close>, which its caller reads as false.\<close>

definition isProvidedTypeValid :: "jsval \<Rightarrow> TableColumn \<Rightarrow> bool" where
  "isProvidedTypeValid provType col =
     (if nullable col \<and> loose_null provType then True
      else if typeof provType = TNumber
              \<and> \<not> (case provType of JNum n \<Rightarrow> isFinite n | _ \<Rightarrow> False) then False
      else case type col of
        T_string \<Rightarrow> typeof provType = TString
      | T_boolean \<Rightarrow> typeof provType = TBoolean \<or> provType = JNum (Finite 0)
                       \<or> provType = JNum (Finite 1)
      | T_integer \<Rightarrow> typeof provType = TNumber
                       \<and> (case provType of JNum n \<Rightarrow> isSafeInteger n | _ \<Rightarrow> False)
      | T_number \<Rightarrow> typeof provType = TNumber
      | T_json \<Rightarrow> typeof provType = TObject \<or> instanceof_Array provType
      | T_blob \<Rightarrow> instanceof_Uint8Array provType
      | T_other s \<Rightarrow> False)"

section \<open>model-reader.ts\<close>

text \<open>\<open>key in v\<close> for a key that is neither an index nor the name of a built-in
  property: a TypeError on a primitive, otherwise whether the object has the property.\<close>

fun has_property :: "string \<Rightarrow> jsval \<Rightarrow> error + bool" where
  "has_property k (JObj kvs) = Inr (k \<in> set (map fst kvs))"
| "has_property k (JInst cs kvs) = Inr (k \<in> set (map fst kvs))"
| "has_property k v = (if is_primitive v then Inl TypeError else Inr False)"

definition readVersion0 :: "jsval \<Rightarrow> jsval" where
  "readVersion0 data = JObj [(''version'', JNum (Finite 1)), (''models'', data)]"

text \<open>\<open>read\<close>. The file system is a map from paths to file contents; \<open>readFileSync\<close>
  raises when the file is absent, and the \<open>catch\<close> covers it and \<open>JSON.parse\<close>.\<close>

definition read :: "js_runtime \<Rightarrow> (string \<rightharpoonup> string) \<Rightarrow> string \<Rightarrow> error + jsval" where
  "read rt fs dbPath =
     (case fs (dbPath @ ''.model.json'') of
        None \<Rightarrow> Inr (JObj [])
      | Some txt \<Rightarrow>
         (case json_parse rt txt of
            None \<Rightarrow> Inr (JObj [])
          | Some parsed \<Rightarrow>
              bindE (has_property ''version'' parsed) (\<lambda>h.
                let data = (if \<not> h then readVersion0 parsed else parsed)
                in bindE (has_property ''version'' data) (\<lambda>h'.
                     if h' \<and> get_prop data ''version'' = JNum (Finite 1)
                     then Inr (get_prop data ''models'')
                     else Inl UnknownModelVersion))))"

section \<open>The driver (class SqliteOrm)\<close>

definition serialize :: "js_runtime \<Rightarrow> registry \<Rightarrow> jsval \<Rightarrow> ColumnType \<Rightarrow> error + jsval" where
  "serialize rt reg data ty =
     (if loose_null data then Inr JNull
      else case ty of
        T_boolean \<Rightarrow>
          if typeof data \<noteq> TBoolean then Inl DBInvalidData
          else Inr (JNum (Finite (if truthy data then 1 else 0)))
      | T_string \<Rightarrow> if typeof data \<noteq> TString then Inl DBInvalidData else Inr data
      | T_number \<Rightarrow> if typeof data \<noteq> TNumber then Inl DBInvalidData else Inr data
      | T_integer \<Rightarrow>
          if typeof data \<noteq> TNumber \<or> \<not> (case data of JNum n \<Rightarrow> isInteger n | _ \<Rightarrow> False)
          then Inl DBInvalidData else Inr data
      | T_blob \<Rightarrow> if \<not> instanceof_Uint8Array data then Inl DBInvalidData else Inr data
      | T_json \<Rightarrow>
          if typeof data \<noteq> TObject then Inl DBInvalidData
          else bindE (jsonify rt reg data []) (\<lambda>j. Inr (JStr (json_stringify rt j)))
      | T_other s \<Rightarrow> Inl UnknownColumnType)"

text \<open>\<open>deserialize\<close>; \<open>compatMode\<close> is \<open>this.opts.jsonCompatMode ?? false\<close>. Its \<open>switch\<close> has
  no default, so a column type outside the union yields \<open>undefined\<close>.\<close>

definition deserialize ::
  "js_runtime \<Rightarrow> registry \<Rightarrow> bool \<Rightarrow> jsval \<Rightarrow> ColumnType \<Rightarrow> error + jsval" where
  "deserialize rt reg compatMode data ty =
     (if loose_null data then Inr JNull
      else case ty of
        T_boolean \<Rightarrow>
          if typeof data \<noteq> TNumber \<and> \<not> (case data of JNum n \<Rightarrow> isInteger n | _ \<Rightarrow> False)
          then Inl DBInvalidData
          else Inr (JBool (data = JNum (Finite 1)))
      | T_string \<Rightarrow> if typeof data \<noteq> TString then Inl DBInvalidData else Inr data
      | T_number \<Rightarrow> if typeof data \<noteq> TNumber then Inl DBInvalidData else Inr data
      | T_integer \<Rightarrow>
          if typeof data \<noteq> TNumber \<and> \<not> (case data of JNum n \<Rightarrow> isInteger n | _ \<Rightarrow> False)
          then Inl DBInvalidData else Inr data
      | T_blob \<Rightarrow> if \<not> instanceof_Uint8Array data then Inl DBInvalidData else Inr data
      | T_json \<Rightarrow>
          (case data of
             JStr s \<Rightarrow>
               (case json_parse rt s of
                  None \<Rightarrow> Inl DBInvalidData
                | Some parsed \<Rightarrow>
                    (case dejsonify rt reg parsed compatMode of
                       Inl e \<Rightarrow> Inl DBInvalidData
                     | Inr v \<Rightarrow> Inr v))
           | _ \<Rightarrow> Inl DBInvalidData)
      | T_other s \<Rightarrow> Inr JUndefined)"

text \<open>
  The step of \<open>SqliteOrm.model\<close> that brings the live table in line with the built
  model. \<open>info\<close> is the result of \<open>PRAGMA table_info\<close>. The database is outside the
  repository: \<open>db.exec\<close> is taken to succeed, and the state records the statements it
  was given, oldest first, next to the \<open>hasModelChanges\<close> flag. The result pairs the
  error raised, if any, with the state at that point.
\<close>

record orm_state =
  executed :: "string list"
  hasModelChanges :: bool

definition sync_table ::
  "js_runtime \<Rightarrow> registry \<Rightarrow> Model \<Rightarrow> datum list \<Rightarrow> orm_state \<Rightarrow> error option \<times> orm_state" where
  "sync_table rt reg builtModel info st =
     (if length info = 0 then
        (let st1 = st\<lparr> hasModelChanges := True \<rparr>
         in case buildTableQuery rt reg builtModel of
              Inl e \<Rightarrow> (Some e, st1)
            | Inr q \<Rightarrow> (None, st1\<lparr> executed := executed st1 @ [q] \<rparr>))
      else
        (case buildAlterQuery rt reg (buildModelFromData builtModel info) builtModel of
           Inl e \<Rightarrow> (Some e, st)
         | Inr cs \<Rightarrow>
             (None, fold (\<lambda>c s. s\<lparr> hasModelChanges := True, executed := executed s @ [c] \<rparr>)
                      cs st)))"

section \<open>A concrete runtime\<close>

text \<open>
  An instance of the runtime, for evaluating the definitions on concrete inputs. Its
  \<open>to_string\<close> agrees with JavaScript on strings, booleans, \<open>null\<close>, \<open>undefined\<close> and the
  integers; its \<open>to_primitive\<close> converts a plain object without a \<open>toString\<close> or
  \<open>valueOf\<close> of its own and a Map as the methods of \<open>Object.prototype\<close> do, and any
  other object stands for one whose conversion raises; its base64 functions are the
  standard encoding with padding.
\<close>

fun example_to_primitive :: "hint \<Rightarrow> jsval \<Rightarrow> jsval option" where
  "example_to_primitive h (JObj kvs) =
     (if ''toString'' \<in> fst ` set kvs \<or> ''valueOf'' \<in> fst ` set kvs then None
      else Some (JStr ''[object Object]''))"
| "example_to_primitive h (JMap kvs) = Some (JStr ''[object Map]'')"
| "example_to_primitive h v = None"

fun example_to_string :: "jsval \<Rightarrow> string" where
  "example_to_string (JStr s) = s"
| "example_to_string (JNum (Finite q)) =
     (if q < 0 then ''-'' @ show_nat (nat \<lfloor>- q\<rfloor>) else show_nat (nat \<lfloor>q\<rfloor>))"
| "example_to_string (JNum NaN) = ''NaN''"
| "example_to_string (JNum PosInfinity) = ''Infinity''"
| "example_to_string (JNum NegInfinity) = ''-Infinity''"
| "example_to_string (JBool b) = (if b then ''true'' else ''false'')"
| "example_to_string JNull = ''null''"
| "example_to_string JUndefined = ''undefined''"
| "example_to_string v = ''[object Object]''"

definition b64_alphabet :: string where
  "b64_alphabet = ''ABCDEFGHIJKLMNOPQRSTUVWXYZabcdefghijklmnopqrstuvwxyz0123456789+/''"

fun b64_encode :: "nat list \<Rightarrow> string" where
  "b64_encode [] = []"
| "b64_encode [a] =
     [b64_alphabet ! (a div 4), b64_alphabet ! ((a mod 4) * 16), CHR ''='', CHR ''='']"
| "b64_encode [a, b] =
     [b64_alphabet ! (a div 4), b64_alphabet ! ((a mod 4) * 16 + b div 16),
      b64_alphabet ! ((b mod 16) * 4), CHR ''='']"
| "b64_encode (a # b # c # bs) =
     [b64_alphabet ! (a div 4), b64_alphabet ! ((a mod 4) * 16 + b div 16),
      b64_alphabet ! ((b mod 16) * 4 + c div 64), b64_alphabet ! (c mod 64)]
     @ b64_encode bs"

fun b64_index :: "char \<Rightarrow> string \<Rightarrow> nat" where
  "b64_index c [] = 0"
| "b64_index c (x # xs) = (if x = c then 0 else Suc (b64_index c xs))"

fun b64_decode :: "string \<Rightarrow> nat list" where
  "b64_decode (a # b # c # d # cs) =
     (let i = b64_index a b64_alphabet; j = b64_index b b64_alphabet;
          k = b64_index c b64_alphabet; l = b64_index d b64_alphabet
      in if c = CHR ''='' then [i * 4 + j div 16]
         else if d = CHR ''='' then [i * 4 + j div 16, (j mod 16) * 16 + k div 4]
         else [i * 4 + j div 16, (j mod 16) * 16 + k div 4, (k mod 4) * 64 + l]
              @ b64_decode cs)"
| "b64_decode cs = []"

definition example_runtime :: js_runtime where
  "example_runtime =
     \<lparr> to_string = example_to_string,
       to_primitive = example_to_primitive,
       json_stringify = (\<lambda>v. ''{}''),
       json_parse = (\<lambda>s. None),
       to_base64 = b64_encode,
       from_base64 = (\<lambda>v. case v of JStr s \<Rightarrow> Some (b64_decode s) | _ \<Rightarrow> None) \<rparr>"

definition example_column :: TableColumn where
  "example_column =
     \<lparr> type = T_json, name = ''meta'', mappedTo = None, nullable = False,
       defaultValue = JUndefined, isPrimaryKey = False, autoIncrement = False \<rparr>"

text \<open>A model in an attached database \<open>aux\<close>: an auto-increment key \<open>id\<close>, a string
  \<open>name\<close> and a json property \<open>meta\<close> stored in the column \<open>meta_json\<close>.\<close>

definition id_column :: TableColumn where
  "id_column =
     \<lparr> type = T_integer, name = ''id'', mappedTo = None, nullable = False,
       defaultValue = JNum (Finite (- 1)), isPrimaryKey = True, autoIncrement = True \<rparr>"

definition name_column :: TableColumn where
  "name_column =
     \<lparr> type = T_string, name = ''name'', mappedTo = None, nullable = False,
       defaultValue = JStr ''x'', isPrimaryKey = False, autoIncrement = False \<rparr>"

definition meta_column :: TableColumn where
  "meta_column =
     \<lparr> type = T_json, name = ''meta'', mappedTo = Some ''meta_json'', nullable = True,
       defaultValue = JNull, isPrimaryKey = False, autoIncrement = False \<rparr>"

definition example_model :: Model where
  "example_model =
     \<lparr> tableName = ''users'', columns = [id_column, name_column, meta_column],
       database = ''aux'' \<rparr>"

text \<open>A row of that model, keyed by the physical column names, as \<open>save\<close> builds it.\<close>

definition example_row :: "(string \<times> jsval) list" where
  "example_row = [(''id'', JNum (Finite 7)), (''name'', JStr ''x''), (''meta_json'', JStr ''{}'')]"

definition example_select :: SelectQuery where
  "example_select =
     \<lparr> q_where = Some \<lparr> w_clause = ''id = ?'', w_values = Some [JNum (Finite 7)] \<rparr>,
       q_order = None, q_limit = Some (Finite 1), q_offset = None \<rparr>"

lemma show_nat_digit: "n < 10 \<Longrightarrow> show_nat n = [''0123456789'' ! n]"
  by (simp add: show_nat.simps)

lemmas example_defs =
  example_model_def example_row_def example_select_def example_runtime_def
  id_column_def name_column_def meta_column_def example_column_def

lemmas set_prop_simps =
  set_prop_def comes_before_def to_index_def is_digit_def digit_value_def

section \<open>Properties\<close>

subsection \<open>Facts about \<open>find\<close>\<close>

lemma find_first_False [simp]: "find_first (\<lambda>c. False) xs = None"
  by (induction xs) simp_all

lemma find_first_None_iff: "find_first P xs = None \<longleftrightarrow> (\<forall>x \<in> set xs. \<not> P x)"
  by (induction xs) auto

lemma find_first_Some: "find_first P xs = Some x \<Longrightarrow> P x \<and> x \<in> set xs"
  by (induction xs) (auto split: if_splits)

subsection \<open>Null at the storage boundary\<close>

text \<open>
  C9. For every column type, \<open>serialize\<close> and \<open>deserialize\<close> map \<open>null\<close> and
  \<open>undefined\<close> to \<open>null\<close> without raising. They are given the type of the column and
  nothing else of it, so this holds for every column, whatever its \<open>nullable\<close> flag:
  a null value on a non-nullable column passes the check.
\<close>

theorem serialize_null_any_column:
  "serialize rt reg JNull (type col) = Inr JNull
   \<and> serialize rt reg JUndefined (type col) = Inr JNull
   \<and> deserialize rt reg compatMode JNull (type col) = Inr JNull
   \<and> deserialize rt reg compatMode JUndefined (type col) = Inr JNull"
  by (simp add: serialize_def deserialize_def loose_null_def)

theorem serialize_null_any_column_witness:
  "nullable example_column = False
   \<and> serialize example_runtime [] JNull (type example_column) = Inr JNull
   \<and> serialize example_runtime [] JUndefined (type example_column) = Inr JNull
   \<and> deserialize example_runtime [] False JNull (type example_column) = Inr JNull
   \<and> deserialize example_runtime [] False JUndefined (type example_column) = Inr JNull"
  using serialize_null_any_column [of example_runtime "[]" example_column False]
  by (simp add: example_column_def)

subsection \<open>The pre-flight type guard\<close>

text \<open>
  C5. The guard is to accept \<open>null\<close> only on a nullable column. On a json column that
  is not nullable it accepts \<open>null\<close> all the same: the test for that type is
  \<open>typeof provType === 'object'\<close>, and the type of \<open>null\<close> is \<open>'object'\<close>.
\<close>

theorem isProvidedTypeValid_null_on_json:
  "isProvidedTypeValid JNull example_column = True"
  by (simp add: isProvidedTypeValid_def example_column_def loose_null_def)

theorem isProvidedTypeValid_null_on_json_witness:
  "\<not> nullable example_column \<and> type example_column = T_json
   \<and> isProvidedTypeValid JNull example_column"
  using isProvidedTypeValid_null_on_json by (simp add: example_column_def)

lemma isSafeInteger_isFinite: "isSafeInteger n \<Longrightarrow> isFinite n"
  by (cases n) simp_all

text \<open>
  The other parts of the guard, as the code has them: on a column of any type but json,
  \<open>null\<close> is valid exactly when the column is nullable; a number that is not finite
  is never valid; besides a nullish value on a nullable column, an integer column
  takes the safe integers, a boolean column the booleans and the numbers 0 and 1, and
  a blob column the \<open>Uint8Array\<close>s; a json column takes every value of type object.
\<close>

theorem isProvidedTypeValid_parts:
  "(type col \<noteq> T_json \<longrightarrow> (isProvidedTypeValid JNull col \<longleftrightarrow> nullable col))
   \<and> (\<not> isFinite n \<longrightarrow> \<not> isProvidedTypeValid (JNum n) col)
   \<and> (type col = T_integer \<longrightarrow>
        (isProvidedTypeValid v col \<longleftrightarrow>
           (nullable col \<and> loose_null v) \<or> (\<exists>n. v = JNum n \<and> isSafeInteger n)))
   \<and> (type col = T_boolean \<longrightarrow>
        (isProvidedTypeValid v col \<longleftrightarrow>
           (nullable col \<and> loose_null v) \<or> (\<exists>b. v = JBool b)
           \<or> v = JNum (Finite 0) \<or> v = JNum (Finite 1)))
   \<and> (type col = T_json \<longrightarrow> typeof v = TObject \<longrightarrow> isProvidedTypeValid v col)
   \<and> (type col = T_blob \<longrightarrow>
        (isProvidedTypeValid v col \<longleftrightarrow>
           (nullable col \<and> loose_null v) \<or> instanceof_Uint8Array v))"
  by (cases v; cases "type col"; cases n)
     (auto simp: isProvidedTypeValid_def loose_null_def dest: isSafeInteger_isFinite)

theorem isProvidedTypeValid_parts_witness:
  "\<not> isProvidedTypeValid JNull id_column
   \<and> \<not> isProvidedTypeValid (JNum PosInfinity) (id_column\<lparr> type := T_number \<rparr>)
   \<and> isProvidedTypeValid (JNum (Finite 7)) id_column
   \<and> \<not> isProvidedTypeValid (JNum (Finite 9007199254740992)) id_column
   \<and> \<not> isProvidedTypeValid (JNum (Finite (1 / 2))) id_column
   \<and> isProvidedTypeValid (JNum (Finite 1)) (name_column\<lparr> type := T_boolean \<rparr>)
   \<and> isProvidedTypeValid (JArr []) example_column
   \<and> isProvidedTypeValid (JBuf [1]) (name_column\<lparr> type := T_blob \<rparr>)
   \<and> \<not> isProvidedTypeValid (JArr []) (name_column\<lparr> type := T_blob \<rparr>)"
proof -
  have t: "type id_column = T_integer" "\<not> nullable id_column" "type example_column = T_json"
    "\<not> nullable name_column"
    by (simp_all add: example_defs)
  have half: "\<lfloor>(1::rat) / 2\<rfloor> = 0"
    by (simp add: floor_eq_iff)
  have f: "isSafeInteger (Finite 7)" "\<not> isSafeInteger (Finite 9007199254740992)"
    "\<not> isSafeInteger (Finite (1 / 2))"
    by (simp_all add: half)
  from isProvidedTypeValid_parts [of id_column PosInfinity "JNum (Finite 7)"]
    isProvidedTypeValid_parts [of "id_column\<lparr> type := T_number \<rparr>" PosInfinity JNull]
    isProvidedTypeValid_parts [of id_column PosInfinity "JNum (Finite 9007199254740992)"]
    isProvidedTypeValid_parts [of id_column PosInfinity "JNum (Finite (1 / 2))"]
    isProvidedTypeValid_parts [of "name_column\<lparr> type := T_boolean \<rparr>" PosInfinity "JNum (Finite 1)"]
    isProvidedTypeValid_parts [of example_column PosInfinity "JArr []"]
    isProvidedTypeValid_parts [of "name_column\<lparr> type := T_blob \<rparr>" PosInfinity "JBuf [1]"]
    isProvidedTypeValid_parts [of "name_column\<lparr> type := T_blob \<rparr>" PosInfinity "JArr []"]
    t f
  show ?thesis
    by (simp add: loose_null_def)
qed


subsection \<open>Which statements name the database\<close>






lemma get_prop_type_object:
  "\<not> loose_null (get_prop val k) \<Longrightarrow>
   typeof val = TObject \<and> \<not> instanceof_Array val \<and> \<not> loose_null val"
  by (cases val) (auto simp: loose_null_def)

subsection \<open>Unknown type tags\<close>

text \<open>
  C4, as stated: every tagged object whose tag is not \<open>Map\<close>, \<open>Buffer\<close> or \<open>object\<close> and
  names no registered type fails to decode. With compatibility mode on and a tag that
  does not start with \<open>custom-\<close> it does not fail: the object is read as a plain
  nested object. Here no type is registered at all.
\<close>

theorem readValue_unknown_tag_counterexample:
  "readValue example_runtime []
     (JObj [(''type'', JStr ''circle''), (''radius'', JNum (Finite 3))]) True
   = Inr (JObj [(''type'', JStr ''circle''), (''radius'', JNum (Finite 3))])"
  by (simp add: readValue.simps loose_null_def startsWith_def set_prop_simps)

text \<open>
  A tag on which \<open>val.type.startsWith\<close> is not a function: a boolean, a number, a
  bigint or a symbol, an array, a Map or a typed array, and a plain object whose own
  property of that name, if it has one, is not a function. (A string has the method;
  what a function or a class instance carries under that name is not in the model.)
\<close>

fun no_startsWith :: "jsval \<Rightarrow> bool" where
  "no_startsWith (JBool b) = True"
| "no_startsWith (JNum n) = True"
| "no_startsWith (JBigInt i) = True"
| "no_startsWith JSymbol = True"
| "no_startsWith (JArr xs) = True"
| "no_startsWith (JMap kvs) = True"
| "no_startsWith (JBuf bs) = True"
| "no_startsWith (JU8 bs) = True"
| "no_startsWith (JObj kvs) = (typeof (get_prop (JObj kvs) ''startsWith'') \<noteq> TFunction)"
| "no_startsWith v = False"

text \<open>
  C4, amended. A tagged object whose tag is not \<open>Map\<close>, \<open>Buffer\<close> or \<open>object\<close>. When
  the tag is a string that starts with \<open>custom-\<close> and the rest of it is the name of no
  registered class, decoding fails for either value of the compatibility flag. When
  the tag is a string that does not start with \<open>custom-\<close>, decoding fails if the flag
  is off; if it is on, the object is read like an untagged one: the result is that of
  \<open>dejsonify\<close> on the object itself, where the tag is a property like any other. When
  the tag is not a string and has no method \<open>startsWith\<close>, decoding fails with a
  TypeError for either value of the flag.
\<close>

theorem readValue_unknown_tag:
  assumes "get_prop val ''type'' = tag"
    and "\<not> loose_null tag"
    and "tag \<noteq> JStr ''Map''" and "tag \<noteq> JStr ''Buffer''" and "tag \<noteq> JStr ''object''"
  shows "(\<forall>t. tag = JStr t \<and> startsWith t ''custom-''
              \<and> (\<forall>c \<in> set reg. c_name (classRef c) \<noteq> drop (length ''custom-'') t)
          \<longrightarrow> readValue rt reg val compatMode = Inl ClassNotRegistered)
       \<and> (\<forall>t. tag = JStr t \<and> \<not> startsWith t ''custom-''
          \<longrightarrow> readValue rt reg val False = Inl UnknownType
            \<and> readValue rt reg val True = dejsonify rt reg val True)
       \<and> (no_startsWith tag \<longrightarrow> readValue rt reg val compatMode = Inl TypeError)"
proof -
  from get_prop_type_object [of val "''type''"] assms(1,2)
  have obj: "typeof val = TObject" "\<not> instanceof_Array val" "\<not> loose_null val"
    by simp_all
  have 1: "readValue rt reg val compatMode = Inl ClassNotRegistered"
    if "tag = JStr t" "startsWith t ''custom-''"
      "\<forall>c \<in> set reg. c_name (classRef c) \<noteq> drop (length ''custom-'') t" for t
    using that assms obj
    by (auto simp: readValue.simps loose_null_def find_first_None_iff [THEN iffD2]
        simp del: dejsonify.simps)
  have 2: "readValue rt reg val False = Inl UnknownType
        \<and> readValue rt reg val True = dejsonify rt reg val True"
    if "tag = JStr t" "\<not> startsWith t ''custom-''" for t
    using that assms obj
    by (auto simp: readValue.simps loose_null_def simp del: dejsonify.simps)
  have 3: "readValue rt reg val compatMode = Inl TypeError" if "no_startsWith tag"
    using that assms obj
    by (cases tag) (auto simp: readValue.simps loose_null_def simp del: dejsonify.simps)
  from 1 2 3 show ?thesis by blast
qed

theorem readValue_unknown_tag_witness:
  "readValue example_runtime []
     (JObj [(''data'', JObj []), (''type'', JStr ''custom-Point'')]) True
     = Inl ClassNotRegistered
   \<and> readValue example_runtime []
       (JObj [(''type'', JStr ''circle''), (''radius'', JNum (Finite 3))]) False
     = Inl UnknownType
   \<and> readValue example_runtime []
       (JObj [(''type'', JNum (Finite 5)), (''radius'', JNum (Finite 3))]) True
     = Inl TypeError"
proof -
  have n: "\<not> loose_null (JStr s)" "\<not> loose_null (JNum x)" for s x
    by (simp_all add: loose_null_def)
  have 1: "readValue example_runtime []
     (JObj [(''data'', JObj []), (''type'', JStr ''custom-Point'')]) True
     = Inl ClassNotRegistered"
  proof -
    have "get_prop (JObj [(''data'', JObj []), (''type'', JStr ''custom-Point'')]) ''type''
            = JStr ''custom-Point''"
      by simp
    from readValue_unknown_tag [OF this n(1), of "[]" example_runtime True,
        THEN conjunct1, rule_format, of "''custom-Point''"]
    show ?thesis by (simp add: startsWith_def)
  qed
  have 2: "readValue example_runtime []
       (JObj [(''type'', JStr ''circle''), (''radius'', JNum (Finite 3))]) False
     = Inl UnknownType"
  proof -
    have "get_prop (JObj [(''type'', JStr ''circle''), (''radius'', JNum (Finite 3))]) ''type''
            = JStr ''circle''"
      by simp
    from readValue_unknown_tag [OF this n(1), of "[]" example_runtime True,
        THEN conjunct2, THEN conjunct1, rule_format, of "''circle''", THEN conjunct1]
    show ?thesis by (simp add: startsWith_def)
  qed
  have 3: "readValue example_runtime []
       (JObj [(''type'', JNum (Finite 5)), (''radius'', JNum (Finite 3))]) True
     = Inl TypeError"
  proof -
    have "get_prop (JObj [(''type'', JNum (Finite 5)), (''radius'', JNum (Finite 3))]) ''type''
            = JNum (Finite 5)"
      by simp
    from readValue_unknown_tag [OF this n(2), of "[]" example_runtime True,
        THEN conjunct2, THEN conjunct2, rule_format]
    show ?thesis by simp
  qed
  from 1 2 3 show ?thesis by blast
qed

subsection \<open>Reading the model snapshot\<close>

lemma map_of_fst_in: "map_of kvs k = Some v \<Longrightarrow> k \<in> fst ` set kvs"
  by (induction kvs) (auto split: if_splits)

text \<open>
  C8. Reading the snapshot file of \<open>dbPath\<close>: an absent file and a text that
  \<open>JSON.parse\<close> rejects give the empty model set; an object with \<open>version\<close> 1 gives
  its \<open>models\<close>; an object without a \<open>version\<close> property (a legacy file, a bare
  mapping from model names to models) gives the object itself; an object whose
  \<open>version\<close> is any other value raises the error.
\<close>

theorem read_cases:
  "(fs (dbPath @ ''.model.json'') = None \<longrightarrow> read rt fs dbPath = Inr (JObj []))
   \<and> (fs (dbPath @ ''.model.json'') = Some txt \<longrightarrow>
        (json_parse rt txt = None \<longrightarrow> read rt fs dbPath = Inr (JObj []))
      \<and> (json_parse rt txt = Some (JObj kvs) \<longrightarrow>
           (map_of kvs ''version'' = Some (JNum (Finite 1)) \<and> map_of kvs ''models'' = Some ms
              \<longrightarrow> read rt fs dbPath = Inr ms)
         \<and> (''version'' \<notin> fst ` set kvs \<longrightarrow> read rt fs dbPath = Inr (JObj kvs))
         \<and> (\<forall>v. map_of kvs ''version'' = Some v \<and> v \<noteq> JNum (Finite 1)
              \<longrightarrow> read rt fs dbPath = Inl UnknownModelVersion)))"
  by (auto simp: read_def readVersion0_def Let_def dest: map_of_fst_in)

text \<open>Four snapshot files; \<open>example_parse\<close> stands for \<open>JSON.parse\<close> on their texts.\<close>

definition example_fs :: "string \<rightharpoonup> string" where
  "example_fs = [''v1.model.json'' \<mapsto> ''A'', ''legacy.model.json'' \<mapsto> ''B'',
      ''v2.model.json'' \<mapsto> ''C'', ''broken.model.json'' \<mapsto> ''{'']"

definition example_parse :: "string \<Rightarrow> jsval option" where
  "example_parse s =
     (if s = ''A'' then Some (JObj [(''version'', JNum (Finite 1)), (''models'', JObj [(''User'', JObj [])])])
      else if s = ''B'' then Some (JObj [(''User'', JObj [])])
      else if s = ''C'' then Some (JObj [(''version'', JNum (Finite 2)), (''models'', JObj [])])
      else None)"

theorem read_cases_witness:
  "read (example_runtime\<lparr> json_parse := example_parse \<rparr>) example_fs ''v1''
     = Inr (JObj [(''User'', JObj [])])
   \<and> read (example_runtime\<lparr> json_parse := example_parse \<rparr>) example_fs ''legacy''
     = Inr (JObj [(''User'', JObj [])])
   \<and> read (example_runtime\<lparr> json_parse := example_parse \<rparr>) example_fs ''v2''
     = Inl UnknownModelVersion
   \<and> read (example_runtime\<lparr> json_parse := example_parse \<rparr>) example_fs ''broken''
     = Inr (JObj [])
   \<and> read (example_runtime\<lparr> json_parse := example_parse \<rparr>) example_fs ''absent''
     = Inr (JObj [])"
  using read_cases [of example_fs "''v1''" "example_runtime\<lparr> json_parse := example_parse \<rparr>" "''A''"
          "[(''version'', JNum (Finite 1)), (''models'', JObj [(''User'', JObj [])])]"
          "JObj [(''User'', JObj [])]"]
        read_cases [of example_fs "''legacy''" "example_runtime\<lparr> json_parse := example_parse \<rparr>" "''B''"
          "[(''User'', JObj [])]" undefined]
        read_cases [of example_fs "''v2''" "example_runtime\<lparr> json_parse := example_parse \<rparr>" "''C''"
          "[(''version'', JNum (Finite 2)), (''models'', JObj [])]" undefined]
        read_cases [of example_fs "''broken''" "example_runtime\<lparr> json_parse := example_parse \<rparr>" "''{''"
          undefined undefined]
        read_cases [of example_fs "''absent''" "example_runtime\<lparr> json_parse := example_parse \<rparr>"
          undefined undefined undefined]
  by (simp add: example_fs_def example_parse_def)

subsection \<open>Reconciling the live table\<close>

lemma tableName_buildModelFromData [simp]:
  "tableName (buildModelFromData m info) = tableName m"
  by (simp add: buildModelFromData_def)

text \<open>
  C1. When the name of the primary-key column of the existing model differs from that
  of the declared model (one of them may have no primary key), \<open>buildAlterQuery\<close>
  raises an error and returns no statement. In the driver, where the existing model is
  rebuilt from the introspection of a table that exists, the error is the primary-key
  conflict and it is raised before any statement is executed: the state is unchanged.
\<close>

theorem primary_key_conflict_fails:
  "(primaryKeyName existingModel \<noteq> primaryKeyName actualModel \<longrightarrow>
      buildAlterQuery rt reg existingModel actualModel
        = Inl (if tableName existingModel \<noteq> tableName actualModel then TableNamesDiffer
               else PrimaryKeyConflict))
   \<and> (info \<noteq> [] \<and> primaryKeyName (buildModelFromData m info) \<noteq> primaryKeyName m \<longrightarrow>
        sync_table rt reg m info st = (Some PrimaryKeyConflict, st))"
  by (simp add: buildAlterQuery_def sync_table_def)

text \<open>A live table whose primary key is \<open>name\<close>, against the model whose key is \<open>id\<close>.\<close>

definition conflicting_info :: "datum list" where
  "conflicting_info =
     [\<lparr> d_name = ''id'', d_type = ''INTEGER'', d_notnull = 1, d_dflt_value = JNull, d_pk = 0 \<rparr>,
      \<lparr> d_name = ''name'', d_type = ''TEXT'', d_notnull = 1, d_dflt_value = JNull, d_pk = 1 \<rparr>]"

definition fresh_state :: orm_state where
  "fresh_state = \<lparr> executed = [], hasModelChanges = False \<rparr>"

theorem primary_key_conflict_fails_witness:
  "primaryKeyName (buildModelFromData example_model conflicting_info) = Some ''name''
   \<and> primaryKeyName example_model = Some ''id''
   \<and> buildAlterQuery example_runtime [] (buildModelFromData example_model conflicting_info)
        example_model = Inl PrimaryKeyConflict
   \<and> sync_table example_runtime [] example_model conflicting_info fresh_state
        = (Some PrimaryKeyConflict, fresh_state)"
proof -
  have 1: "primaryKeyName (buildModelFromData example_model conflicting_info) = Some ''name''"
    by (simp add: primaryKeyName_def buildModelFromData_def conflicting_info_def example_defs)
  have 2: "primaryKeyName example_model = Some ''id''"
    by (simp add: primaryKeyName_def example_defs)
  have 3: "conflicting_info \<noteq> []"
    by (simp add: conflicting_info_def)
  from 1 2 3
    primary_key_conflict_fails [of "buildModelFromData example_model conflicting_info"
      example_model example_runtime "[]" conflicting_info example_model fresh_state]
  show ?thesis by simp
qed

lemma buildColumnQuery_prefix:
  "buildColumnQuery rt reg col = Inr c \<Longrightarrow> prefix (dq @ name col @ dq) c"
  by (auto simp: buildColumnQuery_def bindE_def split: if_splits sum.splits)

text \<open>Serialization never raises: \<open>writeValue\<close> is only called on serializable values,
  and \<open>jsonify\<close> raises on \<open>null\<close> and \<open>undefined\<close> only.\<close>

lemma serialize_total:
  "(isSerializable val \<longrightarrow> (\<exists>w. writeValue rt reg val = Inr w))"
  "(\<not> loose_null obj \<longrightarrow> (\<exists>j. jsonify rt reg obj ignored = Inr j))"
  "(\<exists>j. jsonify_items rt reg items parsed = Inr j)"
  "(\<exists>j. jsonify_props rt reg es ignored' parsed' = Inr j)"
proof (induction rt reg val and rt reg obj ignored and rt reg items parsed
        and rt reg es ignored' parsed'
        rule: writeValue_jsonify_jsonify_items_jsonify_props.induct)
  case (1 rt reg val)
  have nn: "\<not> loose_null (JArr (map_entries kvs))" for kvs
    by (simp add: loose_null_def)
  show ?case
  proof (cases "find_first (\<lambda>c. instanceof val (classRef c)) reg")
    case None
    show ?thesis
      using 1 None nn
      by (cases val) (auto simp: writeValue.simps loose_null_def isSerializable_def)
  next
    case (Some clas)
    show ?thesis
      using 1 Some nn
      apply (cases val)
      apply (auto simp: writeValue.simps loose_null_def isSerializable_def)
      subgoal premises p for cs props
        using p(1) [OF refl p(2)] by auto
      done
  qed
next
  case (2 rt reg obj ignored)
  then show ?case
    by (cases obj) (auto simp: loose_null_def)
next
  case (3 rt reg parsed)
  then show ?case by simp
next
  case (4 rt reg item items parsed)
  then show ?case by (cases "isSerializable item") auto
next
  case (5 rt reg ignored parsed)
  then show ?case by simp
next
  case (6 rt reg key "value" es ignored parsed)
  then show ?case by (cases "isSerializable value"; cases "key \<in> set ignored") auto
qed

text \<open>\<open>jsonify\<close> returns a result on every argument but \<open>null\<close> and \<open>undefined\<close>:
  members that cannot be serialized are dropped, never reported.\<close>

theorem jsonify_never_raises:
  "\<not> loose_null obj \<longrightarrow> (\<exists>j. jsonify rt reg obj ignored = Inr j)"
  by (rule serialize_total(2))

theorem jsonify_never_raises_witness:
  "\<not> loose_null (JObj [(''f'', JFunction), (''n'', JBigInt 1), (''u'', JUndefined)])
   \<and> jsonify example_runtime [] (JObj [(''f'', JFunction), (''n'', JBigInt 1), (''u'', JUndefined)]) []
       = Inr (JObj [(''u'', JNull)])"
proof -
  have "jsonify example_runtime [] (JObj [(''f'', JFunction), (''n'', JBigInt 1), (''u'', JUndefined)]) []
       = Inr (JObj [(''u'', JNull)])"
    by (simp add: isSerializable_def writeValue.simps loose_null_def set_prop_simps)
  with jsonify_never_raises [of "JObj [(''f'', JFunction), (''n'', JBigInt 1), (''u'', JUndefined)]"
      example_runtime "[]" "[]"]
  show ?thesis by (simp add: loose_null_def)
qed

text \<open>
  A default value that the column clause can hold. The default of a string column goes
  through a template literal and the default of a number, integer or blob column
  through a concatenation; both conversions return on every primitive value but a
  symbol. The default of a boolean column is replaced by 0 or 1 and that of a json
  column by the text of its encoding.
\<close>

definition printable_default :: "TableColumn \<Rightarrow> bool" where
  "printable_default b =
     (type b = T_boolean \<or> type b = T_json
      \<or> (is_primitive (defaultValue b) \<and> typeof (defaultValue b) \<noteq> TSymbol))"

lemma string_of_primitive:
  "is_primitive v \<Longrightarrow> typeof v \<noteq> TSymbol \<Longrightarrow> string_of rt h v = Inr (to_string rt v)"
  by (simp add: string_of_def ToString_def)

text \<open>The column clause can be built for every column that keeps the invariant of the
  data model (auto-increment on integer columns only), has a type of the union and a
  default value that can be written.\<close>

lemma buildColumnQuery_succeeds:
  assumes "autoIncrement b \<longrightarrow> type b = T_integer" and "\<forall>s. type b \<noteq> T_other s"
    and "printable_default b"
  shows "\<exists>c. buildColumnQuery rt reg b = Inr c"
proof -
  have "\<exists>s. bindE (getDefaultValue rt reg (type b) (defaultValue b))
              (\<lambda>d. bindE (string_of rt HintDefault d) (\<lambda>s. Inr (''DEFAULT '' @ s))) = Inr s"
    if "\<not> (loose_null (defaultValue b) \<and> \<not> autoIncrement b)"
  proof (cases "type b")
    case T_json
    with assms(1) that have "\<not> loose_null (defaultValue b)" by auto
    from serialize_total(2) [of "defaultValue b" rt reg "[]"] this obtain j where
      "jsonify rt reg (defaultValue b) [] = Inr j" by blast
    with T_json show ?thesis
      by (simp add: string_of_primitive is_primitive_def)
  next
    case T_boolean
    then show ?thesis by (simp add: string_of_primitive is_primitive_def)
  next
    case T_string
    with assms(3) show ?thesis
      by (simp add: printable_default_def string_of_primitive is_primitive_def)
  next
    case T_number
    with assms(3) show ?thesis
      by (simp add: printable_default_def string_of_primitive)
  next
    case T_integer
    with assms(3) show ?thesis
      by (simp add: printable_default_def string_of_primitive)
  next
    case T_blob
    with assms(3) show ?thesis
      by (simp add: printable_default_def string_of_primitive)
  next
    case (T_other s)
    with assms(2) show ?thesis by simp
  qed
  then obtain s where
    s: "(if loose_null (defaultValue b) \<and> \<not> autoIncrement b then Inr []
         else bindE (getDefaultValue rt reg (type b) (defaultValue b))
                (\<lambda>d. bindE (string_of rt HintDefault d) (\<lambda>s. Inr (''DEFAULT '' @ s))))
        = Inr s"
    by (cases "loose_null (defaultValue b) \<and> \<not> autoIncrement b") auto
  obtain t where t: "getSqlType (type b) = Inr t"
    using assms(2) by (cases "type b") auto
  have ok: "\<not> (autoIncrement b \<and> type b \<noteq> T_integer)"
    using assms(1) by blast
  show ?thesis
    unfolding buildColumnQuery_def using ok s t by simp
qed

text \<open>
  A model whose primary key is the property \<open>id\<close>, stored in the column \<open>user_id\<close>
  of the table, next to the string column \<open>name\<close>: the columns that the driver
  builds for a class that declares \<open>@mapTo('user_id') id = -1\<close> and \<open>name = 'x'\<close>.
  And the introspection of a live table that has the column \<open>user_id\<close> only, as its
  primary key.
\<close>

definition mapped_id_column :: TableColumn where
  "mapped_id_column =
     \<lparr> type = T_number, name = ''id'', mappedTo = Some ''user_id'', nullable = False,
       defaultValue = JNum (Finite (- 1)), isPrimaryKey = True, autoIncrement = False \<rparr>"

definition mapped_key_model :: Model where
  "mapped_key_model =
     \<lparr> tableName = ''User'', columns = [mapped_id_column, name_column], database = ''main'' \<rparr>"

definition live_user_id :: datum where
  "live_user_id =
     \<lparr> d_name = ''user_id'', d_type = ''REAL'', d_notnull = 1, d_dflt_value = JNull,
       d_pk = 1 \<rparr>"

text \<open>
  C2. The declared model has the columns \<open>id\<close> and \<open>name\<close>, and the live table has
  the first of them only, under its physical name \<open>user_id\<close>; it is the primary key
  of both, so \<open>name\<close> is the one column to add. \<open>buildAlterQuery\<close> compares the
  logical name of the declared key, \<open>id\<close>, with the physical name that the
  introspection reports, \<open>user_id\<close>: it raises the primary-key conflict, and the
  driver executes no statement. (The filter for the missing columns, two lines below
  the comparison, does try the physical name, and so do \<open>buildUpdateQuery\<close> and
  \<open>findOne\<close> for the key.)
\<close>

theorem mapped_primary_key_conflict:
  "buildAlterQuery rt reg (buildModelFromData mapped_key_model [live_user_id]) mapped_key_model
     = Inl PrimaryKeyConflict
   \<and> sync_table rt reg mapped_key_model [live_user_id] st = (Some PrimaryKeyConflict, st)"
  by (simp add: buildAlterQuery_def sync_table_def buildModelFromData_def primaryKeyName_def
      mapped_key_model_def mapped_id_column_def name_column_def live_user_id_def)

theorem mapped_primary_key_conflict_witness:
  "columns mapped_key_model = [mapped_id_column, name_column]
   \<and> isPrimaryKey mapped_id_column \<and> mappedTo mapped_id_column = Some (d_name live_user_id)
   \<and> d_pk live_user_id = 1
   \<and> \<not> isPrimaryKey name_column
   \<and> name name_column \<noteq> d_name live_user_id
   \<and> mappedTo name_column \<noteq> Some (d_name live_user_id)
   \<and> tableName (buildModelFromData mapped_key_model [live_user_id])
       = tableName mapped_key_model
   \<and> buildAlterQuery example_runtime []
        (buildModelFromData mapped_key_model [live_user_id]) mapped_key_model
     = Inl PrimaryKeyConflict
   \<and> sync_table example_runtime [] mapped_key_model [live_user_id] fresh_state
     = (Some PrimaryKeyConflict, fresh_state)"
  using mapped_primary_key_conflict [of example_runtime "[]" fresh_state]
  by (simp add: mapped_key_model_def mapped_id_column_def name_column_def live_user_id_def)

text \<open>
  When the primary key, if the model has one, is stored under its own name, the
  reconciliation does add the missing column. The declared model has the columns \<open>a\<close>
  and \<open>b\<close>, in either order; the introspection of the live table lists one column,
  which is \<open>a\<close> (under its logical or its physical name) and is not \<open>b\<close>; \<open>b\<close> is not
  the primary key, \<open>a\<close> is the primary key exactly when the live column is, and then
  its name is that of the live column; \<open>b\<close> keeps the invariant of the data model, has
  a type of the union and a default value that can be written. Then the column clause
  of \<open>b\<close> can be built, it starts with the quoted name of \<open>b\<close>, \<open>buildAlterQuery\<close>
  returns exactly one statement, the \<open>ADD COLUMN\<close> of that clause, and the driver
  executes that statement and no other.
\<close>

theorem missing_column_added:
  assumes m: "columns m = [a, b] \<or> columns m = [b, a]"
    and a: "name a = d_name d \<or> mappedTo a = Some (d_name d)"
    and b: "name b \<noteq> d_name d" "mappedTo b \<noteq> Some (d_name d)"
    and pk: "\<not> isPrimaryKey b" "isPrimaryKey a \<longleftrightarrow> d_pk d = 1"
      "isPrimaryKey a \<longrightarrow> name a = d_name d"
    and inv: "autoIncrement b \<longrightarrow> type b = T_integer" "\<forall>s. type b \<noteq> T_other s"
      "printable_default b"
  shows "\<exists>c. buildColumnQuery rt reg b = Inr c
     \<and> prefix (dq @ name b @ dq) c
     \<and> buildAlterQuery rt reg (buildModelFromData m [d]) m
           = Inr [''ALTER TABLE '' @ database m @ ''.'' @ sq @ tableName m @ sq
                  @ '' ADD COLUMN '' @ c]
     \<and> sync_table rt reg m [d] st
         = (None, st\<lparr> hasModelChanges := True,
                      executed := executed st
                        @ [''ALTER TABLE '' @ database m @ ''.'' @ sq @ tableName m @ sq
                           @ '' ADD COLUMN '' @ c] \<rparr>)"
proof -
  from buildColumnQuery_succeeds [OF inv] obtain c where
    c: "buildColumnQuery rt reg b = Inr c" by blast
  have cols: "columns (buildModelFromData m [d])
      = [\<lparr> type = type a, name = d_name d, mappedTo = mappedTo a,
           nullable = (d_notnull d = 0), defaultValue = d_dflt_value d,
           isPrimaryKey = (d_pk d = 1), autoIncrement = autoIncrement a \<rparr>]"
    using m a b by (auto simp: buildModelFromData_def)
  have key: "primaryKeyName (buildModelFromData m [d]) = primaryKeyName m"
    using m pk by (auto simp: primaryKeyName_def cols)
  have alter: "buildAlterQuery rt reg (buildModelFromData m [d]) m
           = Inr [''ALTER TABLE '' @ database m @ ''.'' @ sq @ tableName m @ sq
                  @ '' ADD COLUMN '' @ c]"
    using m a b key c
    by (auto simp: buildAlterQuery_def cols)
  have "sync_table rt reg m [d] st
         = (None, st\<lparr> hasModelChanges := True,
                      executed := executed st
                        @ [''ALTER TABLE '' @ database m @ ''.'' @ sq @ tableName m @ sq
                           @ '' ADD COLUMN '' @ c] \<rparr>)"
    using alter by (simp add: sync_table_def)
  with c alter buildColumnQuery_prefix [OF c] show ?thesis by blast
qed

text \<open>The model with the columns \<open>id\<close> and \<open>name\<close>, and a live table with \<open>id\<close> only.\<close>

definition two_column_model :: Model where
  "two_column_model = example_model\<lparr> columns := [id_column, name_column] \<rparr>"

definition live_id :: datum where
  "live_id =
     \<lparr> d_name = ''id'', d_type = ''INTEGER'', d_notnull = 1, d_dflt_value = JNull, d_pk = 1 \<rparr>"

theorem missing_column_added_witness:
  "columns two_column_model = [id_column, name_column]
   \<and> buildAlterQuery example_runtime [] (buildModelFromData two_column_model [live_id])
        two_column_model
       = Inr [''ALTER TABLE aux.'' @ sq @ ''users'' @ sq @ '' ADD COLUMN '' @ dq @ ''name'' @ dq
              @ '' TEXT NOT NULL DEFAULT '' @ sq @ ''x'' @ sq @ ''  '']
   \<and> sync_table example_runtime [] two_column_model [live_id] fresh_state
       = (None, \<lparr> executed =
                    [''ALTER TABLE aux.'' @ sq @ ''users'' @ sq @ '' ADD COLUMN '' @ dq @ ''name''
                     @ dq @ '' TEXT NOT NULL DEFAULT '' @ sq @ ''x'' @ sq @ ''  ''],
                  hasModelChanges = True \<rparr>)"
proof -
  have m: "columns two_column_model = [id_column, name_column]
           \<or> columns two_column_model = [name_column, id_column]"
    by (simp add: two_column_model_def)
  have a: "name id_column = d_name live_id \<or> mappedTo id_column = Some (d_name live_id)"
    by (simp add: id_column_def live_id_def)
  have b: "name name_column \<noteq> d_name live_id" "mappedTo name_column \<noteq> Some (d_name live_id)"
    by (simp_all add: name_column_def live_id_def)
  have pk: "\<not> isPrimaryKey name_column" "isPrimaryKey id_column \<longleftrightarrow> d_pk live_id = 1"
    "isPrimaryKey id_column \<longrightarrow> name id_column = d_name live_id"
    by (simp_all add: name_column_def id_column_def live_id_def)
  have c: "buildColumnQuery example_runtime [] name_column
             = Inr (dq @ ''name'' @ dq @ '' TEXT NOT NULL DEFAULT '' @ sq @ ''x'' @ sq @ ''  '')"
    by (simp add: buildColumnQuery_def example_defs loose_null_def string_of_def ToString_def
        is_primitive_def)
  have db: "database two_column_model = ''aux''" "tableName two_column_model = ''users''"
    by (simp_all add: two_column_model_def example_defs)
  have inv: "autoIncrement name_column \<longrightarrow> type name_column = T_integer"
    "\<forall>s. type name_column \<noteq> T_other s" "printable_default name_column"
    by (simp_all add: name_column_def printable_default_def is_primitive_def)
  have cols: "columns two_column_model = [id_column, name_column]"
    by (simp add: two_column_model_def)
  from missing_column_added [OF m a b pk inv, of example_runtime "[]" fresh_state] c db
  show ?thesis by (simp add: cols fresh_state_def)
qed

subsection \<open>The aggregate statement\<close>

lemma join_Cons_concat: "join sep (x # xs) = x @ concat (map (\<lambda>p. sep @ p) xs)"
  by (induction xs arbitrary: x) simp_all

lemma concat_map_option:
  "concat (map f (case x of None \<Rightarrow> [] | Some w \<Rightarrow> [g w]))
     = (case x of None \<Rightarrow> [] | Some w \<Rightarrow> f (g w))"
  by (cases x) simp_all

lemma concat_map_number_clause:
  "concat (map f (number_clause rt kw n))
     = (case n of None \<Rightarrow> []
        | Some x \<Rightarrow> if truthy (JNum x) then f (kw @ '' '' @ to_string rt (JNum x)) else [])"
  by (cases n) (simp_all add: number_clause_def)

text \<open>A text without the placeholder character, and the text of an optional clause.\<close>

definition no_placeholder :: "string \<Rightarrow> bool" where
  "no_placeholder s = (CHR ''?'' \<notin> set s)"

definition clause_text :: "where_part option \<Rightarrow> string" where
  "clause_text w = (case w of None \<Rightarrow> [] | Some x \<Rightarrow> w_clause x)"

lemma aggregate_text:
  "query (buildAggregateQuery rt q m)
     = ''SELECT '' @ q_select q @ '' FROM '' @ database m @ ''.'' @ sq @ tableName m @ sq
       @ (case q_where q of None \<Rightarrow> [] | Some w \<Rightarrow> '' WHERE '' @ w_clause w)
       @ (case q_group q of None \<Rightarrow> [] | Some cols \<Rightarrow> '' GROUP BY '' @ join '', '' cols)
       @ (case q_having q of None \<Rightarrow> [] | Some h \<Rightarrow> '' HAVING '' @ w_clause h)
       @ (case q_order q of None \<Rightarrow> []
          | Some ob \<Rightarrow> '' ORDER BY '' @ o_by ob @ (if o_desc ob = Some True then '' DESC'' else []))
       @ (case q_limit q of None \<Rightarrow> []
          | Some n \<Rightarrow> if truthy (JNum n) then '' LIMIT '' @ to_string rt (JNum n) else [])
       @ (case q_offset q of None \<Rightarrow> []
          | Some n \<Rightarrow> if truthy (JNum n) then '' OFFSET '' @ to_string rt (JNum n) else [])"
  by (simp add: buildAggregateQuery_def Let_def join_Cons_concat concat_map_option
      concat_map_number_clause order_clause_def split: option.splits)

lemma no_placeholder_join:
  "no_placeholder sep \<Longrightarrow> \<forall>c \<in> set cols. no_placeholder c \<Longrightarrow>
   no_placeholder (join sep cols)"
  by (induction sep cols rule: join.induct) (auto simp: no_placeholder_def)

text \<open>
  C7, amended. When the limit, if supplied, is neither \<open>0\<close> nor \<open>NaN\<close>, the statement
  is the \<open>SELECT ... FROM\<close> part followed by the \<open>WHERE\<close>, \<open>GROUP BY\<close>, \<open>HAVING\<close>,
  \<open>ORDER BY\<close>, \<open>LIMIT\<close> and \<open>OFFSET\<close> parts in this order, each one present exactly when
  it is supplied, except that an offset of \<open>0\<close> or \<open>NaN\<close> adds no \<open>OFFSET\<close> part. The
  parameters are the where-values followed by the having-values. When the select
  clause, the names, the group columns, the order column and the rendered numbers hold
  no placeholder, every placeholder of the statement lies in the where clause or in the
  having clause, and the where clause comes first.
\<close>

theorem aggregate_clauses_and_params:
  assumes limit: "\<forall>n. q_limit q = Some n \<longrightarrow> truthy (JNum n)"
  shows "query (buildAggregateQuery rt q m)
     = ''SELECT '' @ q_select q @ '' FROM '' @ database m @ ''.'' @ sq @ tableName m @ sq
       @ (case q_where q of None \<Rightarrow> [] | Some w \<Rightarrow> '' WHERE '' @ w_clause w)
       @ (case q_group q of None \<Rightarrow> [] | Some cols \<Rightarrow> '' GROUP BY '' @ join '', '' cols)
       @ (case q_having q of None \<Rightarrow> [] | Some h \<Rightarrow> '' HAVING '' @ w_clause h)
       @ (case q_order q of None \<Rightarrow> []
          | Some ob \<Rightarrow> '' ORDER BY '' @ o_by ob @ (if o_desc ob = Some True then '' DESC'' else []))
       @ (case q_limit q of None \<Rightarrow> [] | Some n \<Rightarrow> '' LIMIT '' @ to_string rt (JNum n))
       @ (case q_offset q of None \<Rightarrow> []
          | Some n \<Rightarrow> if truthy (JNum n) then '' OFFSET '' @ to_string rt (JNum n) else [])
   \<and> params (buildAggregateQuery rt q m)
     = (case q_where q of None \<Rightarrow> []
        | Some w \<Rightarrow> (case w_values w of None \<Rightarrow> [] | Some vs \<Rightarrow> vs))
       @ (case q_having q of None \<Rightarrow> []
          | Some h \<Rightarrow> (case w_values h of None \<Rightarrow> [] | Some vs \<Rightarrow> vs))
   \<and> (no_placeholder (q_select q) \<and> no_placeholder (database m) \<and> no_placeholder (tableName m)
         \<and> (\<forall>cols. q_group q = Some cols \<longrightarrow> (\<forall>c \<in> set cols. no_placeholder c))
         \<and> (\<forall>ob. q_order q = Some ob \<longrightarrow> no_placeholder (o_by ob))
         \<and> (\<forall>n. q_limit q = Some n \<or> q_offset q = Some n
                \<longrightarrow> no_placeholder (to_string rt (JNum n)))
       \<longrightarrow> (\<exists>pre mid post.
             query (buildAggregateQuery rt q m)
               = pre @ clause_text (q_where q) @ mid @ clause_text (q_having q) @ post
             \<and> no_placeholder pre \<and> no_placeholder mid \<and> no_placeholder post))"
proof -
  have qtext: "query (buildAggregateQuery rt q m)
     = ''SELECT '' @ q_select q @ '' FROM '' @ database m @ ''.'' @ sq @ tableName m @ sq
       @ (case q_where q of None \<Rightarrow> [] | Some w \<Rightarrow> '' WHERE '' @ w_clause w)
       @ (case q_group q of None \<Rightarrow> [] | Some cols \<Rightarrow> '' GROUP BY '' @ join '', '' cols)
       @ (case q_having q of None \<Rightarrow> [] | Some h \<Rightarrow> '' HAVING '' @ w_clause h)
       @ (case q_order q of None \<Rightarrow> []
          | Some ob \<Rightarrow> '' ORDER BY '' @ o_by ob @ (if o_desc ob = Some True then '' DESC'' else []))
       @ (case q_limit q of None \<Rightarrow> [] | Some n \<Rightarrow> '' LIMIT '' @ to_string rt (JNum n))
       @ (case q_offset q of None \<Rightarrow> []
          | Some n \<Rightarrow> if truthy (JNum n) then '' OFFSET '' @ to_string rt (JNum n) else [])"
    using limit by (simp add: aggregate_text split: option.splits)
  have ps: "params (buildAggregateQuery rt q m)
     = (case q_where q of None \<Rightarrow> []
        | Some w \<Rightarrow> (case w_values w of None \<Rightarrow> [] | Some vs \<Rightarrow> vs))
       @ (case q_having q of None \<Rightarrow> []
          | Some h \<Rightarrow> (case w_values h of None \<Rightarrow> [] | Some vs \<Rightarrow> vs))"
    by (simp add: buildAggregateQuery_def Let_def values_or_empty_def)
  have ph: "\<exists>pre mid post.
             query (buildAggregateQuery rt q m)
               = pre @ clause_text (q_where q) @ mid @ clause_text (q_having q) @ post
             \<and> no_placeholder pre \<and> no_placeholder mid \<and> no_placeholder post"
    if h: "no_placeholder (q_select q) \<and> no_placeholder (database m) \<and> no_placeholder (tableName m)
         \<and> (\<forall>cols. q_group q = Some cols \<longrightarrow> (\<forall>c \<in> set cols. no_placeholder c))
         \<and> (\<forall>ob. q_order q = Some ob \<longrightarrow> no_placeholder (o_by ob))
         \<and> (\<forall>n. q_limit q = Some n \<or> q_offset q = Some n
                \<longrightarrow> no_placeholder (to_string rt (JNum n)))"
  proof -
    define pre where "pre = ''SELECT '' @ q_select q @ '' FROM '' @ database m @ ''.'' @ sq
       @ tableName m @ sq @ (case q_where q of None \<Rightarrow> [] | Some w \<Rightarrow> '' WHERE '')"
    define mid where "mid =
        (case q_group q of None \<Rightarrow> [] | Some cols \<Rightarrow> '' GROUP BY '' @ join '', '' cols)
        @ (case q_having q of None \<Rightarrow> [] | Some h \<Rightarrow> '' HAVING '')"
    define post where "post =
        (case q_order q of None \<Rightarrow> []
          | Some ob \<Rightarrow> '' ORDER BY '' @ o_by ob @ (if o_desc ob = Some True then '' DESC'' else []))
       @ (case q_limit q of None \<Rightarrow> []
          | Some n \<Rightarrow> if truthy (JNum n) then '' LIMIT '' @ to_string rt (JNum n) else [])
       @ (case q_offset q of None \<Rightarrow> []
          | Some n \<Rightarrow> if truthy (JNum n) then '' OFFSET '' @ to_string rt (JNum n) else [])"
    have eq: "query (buildAggregateQuery rt q m)
               = pre @ clause_text (q_where q) @ mid @ clause_text (q_having q) @ post"
      by (simp add: aggregate_text pre_def mid_def post_def clause_text_def split: option.splits)
    have 1: "no_placeholder pre"
      using h by (auto simp: pre_def no_placeholder_def split: option.splits)
    have "\<And>cols. q_group q = Some cols \<Longrightarrow> no_placeholder (join '', '' cols)"
      using h by (intro no_placeholder_join) (auto simp: no_placeholder_def)
    then have 2: "no_placeholder mid"
      by (auto simp: mid_def no_placeholder_def split: option.splits)
    have 3: "no_placeholder post"
      using h by (auto simp: post_def no_placeholder_def split: option.splits)
    from eq 1 2 3 show ?thesis
      by blast
  qed
  from qtext ps ph show ?thesis by blast
qed

definition zero_limit_query :: AggregateSelectQuery where
  "zero_limit_query =
     \<lparr> q_where = None, q_order = None, q_limit = Some (Finite 0), q_offset = Some (Finite 0),
       q_select = ''name, COUNT(*)'', q_group = Some [''name''], q_having = None \<rparr>"

text \<open>
  C7, as stated: every optional part is present if and only if it is supplied. A limit
  and an offset of \<open>0\<close> are supplied and the statement has no \<open>LIMIT\<close> and no
  \<open>OFFSET\<close> part.
\<close>

theorem aggregate_limit_zero_counterexample:
  "q_limit zero_limit_query = Some (Finite 0) \<and> q_offset zero_limit_query = Some (Finite 0)
   \<and> query (buildAggregateQuery example_runtime zero_limit_query example_model)
       = ''SELECT name, COUNT(*) FROM aux.'' @ sq @ ''users'' @ sq @ '' GROUP BY name''
   \<and> \<not> sublist ''LIMIT'' (query (buildAggregateQuery example_runtime zero_limit_query example_model))
   \<and> \<not> sublist ''OFFSET'' (query (buildAggregateQuery example_runtime zero_limit_query example_model))"
proof -
  have t: "query (buildAggregateQuery example_runtime zero_limit_query example_model)
       = ''SELECT name, COUNT(*) FROM aux.'' @ sq @ ''users'' @ sq @ '' GROUP BY name''"
    by (simp add: buildAggregateQuery_def zero_limit_query_def number_clause_def example_defs)
  show ?thesis
    unfolding t by (simp add: zero_limit_query_def sublist_code)
qed

definition example_aggregate :: AggregateSelectQuery where
  "example_aggregate =
     \<lparr> q_where = Some \<lparr> w_clause = ''age > ?'', w_values = Some [JNum (Finite 18)] \<rparr>,
       q_order = Some \<lparr> o_by = ''name'', o_desc = Some True \<rparr>,
       q_limit = Some (Finite 5), q_offset = Some (Finite 0),
       q_select = ''name, COUNT(*)'', q_group = Some [''name''],
       q_having = Some \<lparr> w_clause = ''COUNT(*) > ?'', w_values = Some [JNum (Finite 1)] \<rparr> \<rparr>"

theorem aggregate_clauses_and_params_witness:
  "query (buildAggregateQuery example_runtime example_aggregate example_model)
     = ''SELECT name, COUNT(*) FROM aux.'' @ sq @ ''users'' @ sq
       @ '' WHERE age > ? GROUP BY name HAVING COUNT(*) > ? ORDER BY name DESC LIMIT 5''
   \<and> params (buildAggregateQuery example_runtime example_aggregate example_model)
     = [JNum (Finite 18), JNum (Finite 1)]
   \<and> (\<exists>pre mid post.
         query (buildAggregateQuery example_runtime example_aggregate example_model)
           = pre @ ''age > ?'' @ mid @ ''COUNT(*) > ?'' @ post
         \<and> no_placeholder pre \<and> no_placeholder mid \<and> no_placeholder post)"
proof -
  have limit: "\<forall>n. q_limit example_aggregate = Some n \<longrightarrow> truthy (JNum n)"
    by (simp add: example_aggregate_def)
  have h: "no_placeholder (q_select example_aggregate) \<and> no_placeholder (database example_model)
         \<and> no_placeholder (tableName example_model)
         \<and> (\<forall>cols. q_group example_aggregate = Some cols
                \<longrightarrow> (\<forall>c \<in> set cols. no_placeholder c))
         \<and> (\<forall>ob. q_order example_aggregate = Some ob \<longrightarrow> no_placeholder (o_by ob))
         \<and> (\<forall>n. q_limit example_aggregate = Some n \<or> q_offset example_aggregate = Some n
                \<longrightarrow> no_placeholder (to_string example_runtime (JNum n)))"
    by (auto simp: example_aggregate_def example_defs no_placeholder_def show_nat_digit)
  note t = aggregate_clauses_and_params [OF limit, of example_runtime example_model]
  have w: "clause_text (q_where example_aggregate) = ''age > ?''"
    and hv: "clause_text (q_having example_aggregate) = ''COUNT(*) > ?''"
    by (simp_all add: example_aggregate_def clause_text_def)
  have 1: "query (buildAggregateQuery example_runtime example_aggregate example_model)
     = ''SELECT name, COUNT(*) FROM aux.'' @ sq @ ''users'' @ sq
       @ '' WHERE age > ? GROUP BY name HAVING COUNT(*) > ? ORDER BY name DESC LIMIT 5''"
    unfolding t [THEN conjunct1]
    by (simp add: example_aggregate_def example_defs show_nat_digit)
  have 2: "params (buildAggregateQuery example_runtime example_aggregate example_model)
     = [JNum (Finite 18), JNum (Finite 1)]"
    unfolding t [THEN conjunct2, THEN conjunct1]
    by (simp add: example_aggregate_def)
  from t h have 3: "\<exists>pre mid post.
         query (buildAggregateQuery example_runtime example_aggregate example_model)
           = pre @ ''age > ?'' @ mid @ ''COUNT(*) > ?'' @ post
         \<and> no_placeholder pre \<and> no_placeholder mid \<and> no_placeholder post"
    unfolding w hv by blast
  from 1 2 3 show ?thesis by blast
qed

subsection \<open>The insert and update statements\<close>

text \<open>
  A key answers to a column when it is its logical or its physical name (this is the
  lookup of both builders); the physical name of a column is \<open>mappedTo ?? name\<close>. In
  an unambiguous model no key answers to two columns: logical names are distinct,
  physical names are distinct, and no physical name is the logical name of another
  column.
\<close>

definition answers :: "TableColumn \<Rightarrow> string \<Rightarrow> bool" where
  "answers c k = (name c = k \<or> mappedTo c = Some k)"

definition physical :: "TableColumn \<Rightarrow> string" where
  "physical c = (case mappedTo c of Some p \<Rightarrow> p | None \<Rightarrow> name c)"

definition unambiguous :: "Model \<Rightarrow> bool" where
  "unambiguous m =
     (\<forall>c \<in> set (columns m). \<forall>c' \<in> set (columns m).
        c \<noteq> c' \<longrightarrow> name c \<noteq> name c' \<and> mappedTo c \<noteq> Some (name c')
                  \<and> (mappedTo c \<noteq> None \<longrightarrow> mappedTo c \<noteq> mappedTo c'))"

lemma unambiguous_answers:
  "unambiguous m \<Longrightarrow> c \<in> set (columns m) \<Longrightarrow> c' \<in> set (columns m) \<Longrightarrow>
   answers c k \<Longrightarrow> answers c' k \<Longrightarrow> c = c'"
  unfolding unambiguous_def answers_def by (metis option.distinct(1))

lemma find_column:
  assumes "unambiguous m" "c \<in> set (columns m)" "answers c k"
  shows "find_first (\<lambda>c. name c = k \<or> mappedTo c = Some k) (columns m) = Some c"
proof (cases "find_first (\<lambda>c. name c = k \<or> mappedTo c = Some k) (columns m)")
  case None
  with assms show ?thesis by (auto simp: find_first_None_iff answers_def)
next
  case (Some c')
  from find_first_Some [OF Some] have "answers c' k" "c' \<in> set (columns m)"
    by (auto simp: answers_def)
  with assms unambiguous_answers have "c = c'" by blast
  with Some show ?thesis by simp
qed

lemma buildInsertQuery_loop_result:
  assumes u: "unambiguous m"
    and pk: "pk \<in> set (columns m)" "autoIncrement pk"
    and only: "\<forall>c \<in> set (columns m). isPrimaryKey c \<longleftrightarrow> c = pk"
  shows "\<forall>k \<in> set (map fst data). \<exists>c \<in> set (columns m). answers c k \<Longrightarrow>
    buildInsertQuery_loop m data cols ps
      = Inr (cols @ filter (\<lambda>k. \<not> answers pk k) (map fst data),
             ps @ map snd (filter (\<lambda>e. \<not> answers pk (fst e)) data))"
proof (induction data arbitrary: cols ps)
  case Nil
  then show ?case by simp
next
  case (Cons e data)
  obtain k v where e: "e = (k, v)" by (cases e)
  from Cons.prems e obtain c where c: "c \<in> set (columns m)" "answers c k" by auto
  have f: "find_first (\<lambda>c. name c = k \<or> mappedTo c = Some k) (columns m) = Some c"
    using find_column [OF u c] .
  have iff: "answers pk k \<longleftrightarrow> c = pk"
    using unambiguous_answers [OF u c(1) pk(1) c(2)] c(2) by auto
  have ipk: "isPrimaryKey c \<longleftrightarrow> c = pk" using only c(1) by blast
  show ?case
    using Cons.IH Cons.prems pk(2) by (auto simp: e f iff ipk)
qed

lemma buildUpdateQuery_loop_result:
  assumes u: "unambiguous m"
    and pk: "pk \<in> set (columns m)"
    and only: "\<forall>c \<in> set (columns m). isPrimaryKey c \<longleftrightarrow> c = pk"
  shows "\<forall>k \<in> set (map fst data). \<exists>c \<in> set (columns m). answers c k \<Longrightarrow>
    buildUpdateQuery_loop m data cols ps pc pv
      = Inr (cols @ filter (\<lambda>k. \<not> answers pk k) (map fst data),
             ps @ map snd (filter (\<lambda>e. \<not> answers pk (fst e)) data),
             (if filter (\<lambda>e. answers pk (fst e)) data = [] then pc else Some (physical pk)),
             (if filter (\<lambda>e. answers pk (fst e)) data = [] then pv
              else snd (last (filter (\<lambda>e. answers pk (fst e)) data))))"
proof (induction data arbitrary: cols ps pc pv)
  case Nil
  then show ?case by simp
next
  case (Cons e data)
  obtain k v where e: "e = (k, v)" by (cases e)
  from Cons.prems e obtain c where c: "c \<in> set (columns m)" "answers c k" by auto
  have f: "find_first (\<lambda>c. name c = k \<or> mappedTo c = Some k) (columns m) = Some c"
    using find_column [OF u c] .
  have iff: "answers pk k \<longleftrightarrow> c = pk"
    using unambiguous_answers [OF u c(1) pk(1) c(2)] c(2) by auto
  have ipk: "isPrimaryKey c \<longleftrightarrow> c = pk" using only c(1) by blast
  show ?case
    using Cons.IH Cons.prems by (auto simp: e f iff ipk physical_def)
qed


text \<open>
  C6, amended. The model is unambiguous and \<open>pk\<close> is its one primary-key column; every key of
  the row data answers to a column of the model. If \<open>pk\<close> is auto-increment, the insert
  statement lists the keys that do not answer to \<open>pk\<close>, in the order of the row, with
  one placeholder for each, and its parameters are their values. If one entry of the
  row answers to \<open>pk\<close>, the update statement sets the other keys, in order, its only
  \<open>WHERE\<close> predicate is the physical name of \<open>pk\<close> with one placeholder, and its
  parameters are the other values followed by the value of the key.
\<close>

theorem insert_update_statements:
  assumes u: "unambiguous m"
    and pk: "pk \<in> set (columns m)"
    and only: "\<forall>c \<in> set (columns m). isPrimaryKey c \<longleftrightarrow> c = pk"
    and keys: "\<forall>k \<in> set (map fst data). \<exists>c \<in> set (columns m). answers c k"
  shows "(autoIncrement pk \<longrightarrow>
      buildInsertQuery m data
        = Inr \<lparr> query = ''INSERT INTO '' @ sq @ tableName m @ sq @ '' (''
                  @ join '', '' (filter (\<lambda>k. \<not> answers pk k) (map fst data))
                  @ '') VALUES (''
                  @ join '', ''
                      (replicate (length (filter (\<lambda>k. \<not> answers pk k) (map fst data))) ''?'')
                  @ '')'',
                params = map snd (filter (\<lambda>e. \<not> answers pk (fst e)) data) \<rparr>)
   \<and> (\<forall>kp vp. filter (\<lambda>e. answers pk (fst e)) data = [(kp, vp)] \<longrightarrow>
      buildUpdateQuery m data
        = Inr \<lparr> query = ''UPDATE '' @ sq @ tableName m @ sq @ '' SET ''
                  @ join '', ''
                      (map (\<lambda>c. c @ '' = ?'') (filter (\<lambda>k. \<not> answers pk k) (map fst data)))
                  @ '' WHERE '' @ physical pk @ '' = ?'',
                params = map snd (filter (\<lambda>e. \<not> answers pk (fst e)) data) @ [vp] \<rparr>)"
proof -
  have ins: "buildInsertQuery m data
        = Inr \<lparr> query = ''INSERT INTO '' @ sq @ tableName m @ sq @ '' (''
                  @ join '', '' (filter (\<lambda>k. \<not> answers pk k) (map fst data))
                  @ '') VALUES (''
                  @ join '', ''
                      (replicate (length (filter (\<lambda>k. \<not> answers pk k) (map fst data))) ''?'')
                  @ '')'',
                params = map snd (filter (\<lambda>e. \<not> answers pk (fst e)) data) \<rparr>"
    if "autoIncrement pk"
    using buildInsertQuery_loop_result [OF u pk that only keys, of "[]" "[]"]
    by (simp add: buildInsertQuery_def map_replicate_const)
  have upd: "buildUpdateQuery m data
        = Inr \<lparr> query = ''UPDATE '' @ sq @ tableName m @ sq @ '' SET ''
                  @ join '', ''
                      (map (\<lambda>c. c @ '' = ?'') (filter (\<lambda>k. \<not> answers pk k) (map fst data)))
                  @ '' WHERE '' @ physical pk @ '' = ?'',
                params = map snd (filter (\<lambda>e. \<not> answers pk (fst e)) data) @ [vp] \<rparr>"
    if "filter (\<lambda>e. answers pk (fst e)) data = [(kp, vp)]" for kp vp
    using buildUpdateQuery_loop_result [OF u pk only keys, of "[]" "[]" None JUndefined] that
    by (simp add: buildUpdateQuery_def)
  from ins upd show ?thesis by blast
qed

theorem insert_update_statements_witness:
  "autoIncrement id_column \<and> isPrimaryKey id_column
   \<and> buildInsertQuery example_model example_row
     = Inr \<lparr> query = ''INSERT INTO '' @ sq @ ''users'' @ sq @ '' (name, meta_json) VALUES (?, ?)'',
             params = [JStr ''x'', JStr ''{}''] \<rparr>
   \<and> buildUpdateQuery example_model example_row
     = Inr \<lparr> query = ''UPDATE '' @ sq @ ''users'' @ sq
                       @ '' SET name = ?, meta_json = ? WHERE id = ?'',
             params = [JStr ''x'', JStr ''{}'', JNum (Finite 7)] \<rparr>"
proof -
  have u: "unambiguous example_model"
    by (auto simp: unambiguous_def example_defs)
  have pk: "id_column \<in> set (columns example_model)"
    by (simp add: example_defs)
  have only: "\<forall>c \<in> set (columns example_model). isPrimaryKey c \<longleftrightarrow> c = id_column"
    by (auto simp: example_defs)
  have keys: "\<forall>k \<in> set (map fst example_row). \<exists>c \<in> set (columns example_model). answers c k"
    by (simp add: example_defs answers_def)
  have one: "filter (\<lambda>e. answers id_column (fst e)) example_row = [(''id'', JNum (Finite 7))]"
    by (simp add: example_defs answers_def)
  have rest: "filter (\<lambda>e. \<not> answers id_column (fst e)) example_row
                = [(''name'', JStr ''x''), (''meta_json'', JStr ''{}'')]"
    and restk: "filter (\<lambda>k. \<not> answers id_column k) (map fst example_row) = [''name'', ''meta_json'']"
    by (simp_all add: example_defs answers_def)
  have ai: "autoIncrement id_column" "isPrimaryKey id_column"
    "physical id_column = ''id''" "tableName example_model = ''users''"
    by (simp_all add: example_defs physical_def)
  from insert_update_statements [OF u pk only keys] ai one
  show ?thesis
    by (simp add: rest restk numeral_2_eq_2)
qed

text \<open>A model in which the physical name of the key, \<open>id\<close>, is also the logical name
  of another column, and a row keyed by the physical names, as \<open>save\<close> builds it.\<close>

definition colliding_model :: Model where
  "colliding_model =
     \<lparr> tableName = ''users'',
       columns =
         [\<lparr> type = T_integer, name = ''id'', mappedTo = Some ''legacy_id'', nullable = False,
            defaultValue = JNum (Finite 0), isPrimaryKey = False, autoIncrement = False \<rparr>,
          \<lparr> type = T_integer, name = ''uid'', mappedTo = Some ''id'', nullable = False,
            defaultValue = JNum (Finite 0), isPrimaryKey = True, autoIncrement = True \<rparr>],
       database = ''main'' \<rparr>"

definition colliding_row :: "(string \<times> jsval) list" where
  "colliding_row = [(''legacy_id'', JNum (Finite 5)), (''id'', JNum (Finite 7))]"

text \<open>
  C6, as stated: for every model with an auto-increment key and every row that supplies
  all its columns, the insert statement excludes the key and the update statement has
  the key as its \<open>WHERE\<close> predicate. Both builders look a key up with
  \<open>c.name === col || c.mappedTo === col\<close> and take the first match: here the key \<open>id\<close>
  of the row is taken for the column whose logical name is \<open>id\<close>, so the insert lists
  it and the update sets it and finds no primary key.
\<close>

theorem insert_update_statements_counterexample:
  "map fst colliding_row = map physical (columns colliding_model)
   \<and> buildInsertQuery colliding_model colliding_row
     = Inr \<lparr> query = ''INSERT INTO '' @ sq @ ''users'' @ sq @ '' (legacy_id, id) VALUES (?, ?)'',
             params = [JNum (Finite 5), JNum (Finite 7)] \<rparr>
   \<and> buildUpdateQuery colliding_model colliding_row
     = Inr \<lparr> query = ''UPDATE '' @ sq @ ''users'' @ sq
                       @ '' SET legacy_id = ?, id = ? WHERE undefined = ?'',
             params = [JNum (Finite 5), JNum (Finite 7), JUndefined] \<rparr>"
  by (simp add: colliding_model_def colliding_row_def physical_def buildInsertQuery_def
      buildUpdateQuery_def)

subsection \<open>The round trip of the codec\<close>

text \<open>
  The keys of a well-formed object, in the order of \<open>Object.entries\<close>: they are
  distinct, the array indices come first and ascend, and none of them is \<open>__proto__\<close>,
  the key that an assignment does not store.
\<close>

definition keys_wf :: "string list \<Rightarrow> bool" where
  "keys_wf ks =
     (distinct ks \<and> ''__proto__'' \<notin> set ks
      \<and> sorted_wrt (\<lambda>k k'. \<not> comes_before k' k) ks)"



















lemma keys_wf_prefix: "keys_wf (xs @ ys) \<Longrightarrow> keys_wf xs"
  by (auto simp: keys_wf_def sorted_wrt_append)



































end
